theory Spec2Isabelle
  imports
    Complex_Main
    "HOL-Library.Word"
    "HOL-Library.Char_ord"
    "HOL-Library.List_Lexorder"
    "HOL-Library.Product_Lexorder"
    "HOL-Library.Multiset"
    "HOL-Library.AList"
begin

unbundle bit_operations_syntax

section \<open>Values, errors\<close>

text \<open>
  Python values (dict entries, values bound to SQL parameters) and the values a
  table cell holds. A Python float is modelled by the real number it denotes (no NaN,
  no infinity). A cell keeps the value that was bound to it (SQLite's column
  affinity conversions are not applied). Timestamps are the ISO texts of
  \<^verbatim>\<open>datetime.utcnow().isoformat()\<close>; texts compare bytewise, a proper prefix first,
  as SQLite's BINARY collation does.
\<close>

type_synonym byte = "8 word"

datatype sqlval = SNull | SInt int | SReal real | SText string | SBlob "byte list"

datatype pyval =
    PNone
  | PBool bool
  | PInt int
  | PFloat real
  | PStr string
  | PBytes "byte list"
  | PDict "(string \<times> pyval) list"

type_synonym pydict = "(string \<times> pyval) list"

datatype error =
    ValueError string
  | FileNotFoundError string
  | RuntimeError string
  | IntegrityError string
  | InterfaceError string
  | OverflowError string
  | KeyError string
  | TypeError string
  | OtherError string

text \<open>\<^verbatim>\<open>str(e)\<close>: the message; for a \<^verbatim>\<open>KeyError\<close> the quoted key.\<close>

fun str_of_error :: "error \<Rightarrow> string" where
  "str_of_error (ValueError m) = m"
| "str_of_error (FileNotFoundError m) = m"
| "str_of_error (RuntimeError m) = m"
| "str_of_error (IntegrityError m) = m"
| "str_of_error (InterfaceError m) = m"
| "str_of_error (OverflowError m) = m"
| "str_of_error (KeyError k) = [CHR 0x27] @ k @ [CHR 0x27]"
| "str_of_error (TypeError m) = m"
| "str_of_error (OtherError m) = m"

text \<open>
  Binding a Python value as a statement parameter: \<^verbatim>\<open>None\<close> is NULL, a bool is
  an int, an int must fit 64 bits, a dict is not a supported type.
\<close>

fun sql_bind :: "pyval \<Rightarrow> error + sqlval" where
  "sql_bind PNone = Inr SNull"
| "sql_bind (PBool b) = Inr (SInt (if b then 1 else 0))"
| "sql_bind (PFloat x) = Inr (SReal x)"
| "sql_bind (PBytes bs) = Inr (SBlob bs)"
| "sql_bind (PInt n) =
     (if - (2 ^ 63) \<le> n \<and> n < 2 ^ 63 then Inr (SInt n)
      else Inl (OverflowError ''Python int too large to convert to SQLite INTEGER''))"
| "sql_bind (PStr s) = Inr (SText s)"
| "sql_bind (PDict d) = Inl (InterfaceError ''Error binding parameter - probably unsupported type.'')"

fun bind_all :: "(string \<times> pyval) list \<Rightarrow> error + (string \<times> sqlval) list" where
  "bind_all [] = Inr []"
| "bind_all ((f, v) # rest) =
     (case sql_bind v of
        Inl e \<Rightarrow> Inl e
      | Inr s \<Rightarrow> (case bind_all rest of Inl e \<Rightarrow> Inl e | Inr ss \<Rightarrow> Inr ((f, s) # ss)))"

section \<open>The database (models/database.py)\<close>

text \<open>
  One record per table row, the tables in rowid (insertion) order. The state is the
  contents reached through an open connection. \<^verbatim>\<open>bbox\<close> and \<^verbatim>\<open>metadata\<close> of chunks and
  jobs are kept as their JSON text.
\<close>

record paper =
  p_id :: string
  p_title :: sqlval
  p_authors :: sqlval
  p_year :: sqlval
  p_doi :: sqlval
  p_source_url :: sqlval
  p_local_pdf_path :: string
  p_added_at :: string
  p_indexed_at :: sqlval
  p_embeddings_ready :: sqlval
  p_status :: sqlval
  p_collection :: sqlval
  p_metadata :: sqlval

record chunk =
  c_id :: string
  c_paper_id :: string
  c_page :: int
  c_bbox :: string
  c_text :: string
  c_chunk_index :: int

record job =
  j_id :: string
  j_paper_id :: string
  j_type :: string
  j_status :: sqlval
  j_priority :: int
  j_error :: sqlval
  j_created_at :: string
  j_started_at :: sqlval
  j_finished_at :: sqlval
  j_metadata :: string

record database =
  tbl_papers :: "paper list"
  tbl_chunks :: "chunk list"
  tbl_embeddings :: "(string \<times> byte list) list"
  tbl_jobs :: "job list"

subsection \<open>Papers\<close>

definition get_paper :: "database \<Rightarrow> string \<Rightarrow> paper option" where
  "get_paper db paper_id = find (\<lambda>p. p_id p = paper_id) (tbl_papers db)"

definition paper_allowed_fields :: "string list" where
  "paper_allowed_fields =
     [''title'', ''authors'', ''year'', ''doi'', ''indexed_at'',
      ''embeddings_ready'', ''status'', ''collection'', ''metadata'']"

text \<open>
  The loop of \<^verbatim>\<open>update_paper\<close> over \<^verbatim>\<open>updates.items()\<close>: one SET clause and one value
  for every allowed field; a dict given for \<^verbatim>\<open>metadata\<close> is dumped to JSON by the
  encoder \<open>dumps\<close> (\<^verbatim>\<open>json.dumps\<close>).
\<close>

fun paper_set_clauses ::
  "(pydict \<Rightarrow> string) \<Rightarrow> (string \<times> pyval) list \<Rightarrow> (string \<times> pyval) list" where
  "paper_set_clauses dumps [] = []"
| "paper_set_clauses dumps ((field, v) # rest) =
     (if field \<in> set paper_allowed_fields
      then (field, (case v of
                      PDict d \<Rightarrow> (if field = ''metadata'' then PStr (dumps d) else v)
                    | _ \<Rightarrow> v)) # paper_set_clauses dumps rest
      else paper_set_clauses dumps rest)"

fun set_paper_column :: "string \<times> sqlval \<Rightarrow> paper \<Rightarrow> paper" where
  "set_paper_column (f, v) p =
     (if f = ''title'' then p\<lparr>p_title := v\<rparr>
      else if f = ''authors'' then p\<lparr>p_authors := v\<rparr>
      else if f = ''year'' then p\<lparr>p_year := v\<rparr>
      else if f = ''doi'' then p\<lparr>p_doi := v\<rparr>
      else if f = ''indexed_at'' then p\<lparr>p_indexed_at := v\<rparr>
      else if f = ''embeddings_ready'' then p\<lparr>p_embeddings_ready := v\<rparr>
      else if f = ''status'' then p\<lparr>p_status := v\<rparr>
      else if f = ''collection'' then p\<lparr>p_collection := v\<rparr>
      else if f = ''metadata'' then p\<lparr>p_metadata := v\<rparr>
      else p)"

text \<open>
  \<^verbatim>\<open>UPDATE papers SET ... WHERE id = ?\<close>: every row with that id gets the assignments
  (the rightmost one for a column wins); \<^verbatim>\<open>title\<close> is NOT NULL, so assigning NULL to it
  in an existing row is refused. Nothing is executed when no clause was collected.
\<close>

definition update_paper ::
  "(pydict \<Rightarrow> string) \<Rightarrow> database \<Rightarrow> string \<Rightarrow> (string \<times> pyval) list
     \<Rightarrow> error + database" where
  "update_paper dumps db paper_id updates =
     (let set_clauses = paper_set_clauses dumps updates in
      if set_clauses = [] then Inr db
      else (case bind_all set_clauses of
              Inl e \<Rightarrow> Inl e
            | Inr vals \<Rightarrow>
                (let rows = map (\<lambda>p. if p_id p = paper_id then fold set_paper_column vals p else p)
                              (tbl_papers db)
                 in if (\<exists>p \<in> set (tbl_papers db). p_id p = paper_id)
                       \<and> map_of (rev vals) ''title'' = Some SNull
                    then Inl (IntegrityError ''NOT NULL constraint failed: papers.title'')
                    else Inr (db\<lparr>tbl_papers := rows\<rparr>))))"

subsection \<open>Jobs\<close>

text \<open>
  The dict given to \<^verbatim>\<open>add_job\<close>: \<^verbatim>\<open>priority\<close> and \<^verbatim>\<open>metadata\<close> may be absent
  (\<^verbatim>\<open>job.get\<close>); the metadata is given by its JSON text.
\<close>

record job_request =
  jr_id :: string
  jr_paper_id :: string
  jr_type :: string
  jr_priority :: "int option"
  jr_metadata :: "string option"

text \<open>
  \<open>now\<close> is the clock reading \<^verbatim>\<open>datetime.utcnow().isoformat()\<close>. The values are bound
  before the statement runs, so a priority that does not fit 64 bits is refused first;
  \<^verbatim>\<open>id\<close> is the primary key.
\<close>

definition add_job :: "string \<Rightarrow> database \<Rightarrow> job_request \<Rightarrow> error + (string \<times> database)" where
  "add_job now db req =
     (let priority = (case jr_priority req of None \<Rightarrow> 0 | Some p \<Rightarrow> p);
          metadata = (case jr_metadata req of None \<Rightarrow> ''{}'' | Some m \<Rightarrow> m)
      in case bind_all [(''id'', PStr (jr_id req)), (''paper_id'', PStr (jr_paper_id req)),
                        (''type'', PStr (jr_type req)), (''status'', PStr ''pending''),
                        (''priority'', PInt priority), (''created_at'', PStr now),
                        (''metadata'', PStr metadata)] of
           Inl e \<Rightarrow> Inl e
         | Inr _ \<Rightarrow>
             if \<exists>j \<in> set (tbl_jobs db). j_id j = jr_id req
             then Inl (IntegrityError ''UNIQUE constraint failed: jobs.id'')
             else Inr (jr_id req,
                    db\<lparr>tbl_jobs := tbl_jobs db @
                       [\<lparr>j_id = jr_id req, j_paper_id = jr_paper_id req, j_type = jr_type req,
                         j_status = SText ''pending'', j_priority = priority,
                         j_error = SNull, j_created_at = now,
                         j_started_at = SNull, j_finished_at = SNull,
                         j_metadata = metadata\<rparr>]\<rparr>))"

text \<open>
  \<^verbatim>\<open>SELECT * FROM jobs WHERE status = 'pending' ORDER BY priority DESC, created_at ASC\<close>.
  Rows that agree on both sort columns come out in rowid order.
\<close>

definition is_pending :: "job \<Rightarrow> bool" where
  "is_pending j = (j_status j = SText ''pending'')"

definition get_pending_jobs :: "database \<Rightarrow> job list" where
  "get_pending_jobs db =
     sort_key (\<lambda>j. (- j_priority j, j_created_at j)) (filter is_pending (tbl_jobs db))"

definition job_allowed_fields :: "string list" where
  "job_allowed_fields = [''status'', ''error'', ''started_at'', ''finished_at'']"

fun job_set_clauses :: "(string \<times> pyval) list \<Rightarrow> (string \<times> pyval) list" where
  "job_set_clauses [] = []"
| "job_set_clauses ((field, v) # rest) =
     (if field \<in> set job_allowed_fields then (field, v) # job_set_clauses rest
      else job_set_clauses rest)"

fun set_job_column :: "string \<times> sqlval \<Rightarrow> job \<Rightarrow> job" where
  "set_job_column (f, v) j =
     (if f = ''status'' then j\<lparr>j_status := v\<rparr>
      else if f = ''error'' then j\<lparr>j_error := v\<rparr>
      else if f = ''started_at'' then j\<lparr>j_started_at := v\<rparr>
      else if f = ''finished_at'' then j\<lparr>j_finished_at := v\<rparr>
      else j)"

definition update_job :: "database \<Rightarrow> string \<Rightarrow> (string \<times> pyval) list \<Rightarrow> error + database" where
  "update_job db job_id updates =
     (let set_clauses = job_set_clauses updates in
      if set_clauses = [] then Inr db
      else (case bind_all set_clauses of
              Inl e \<Rightarrow> Inl e
            | Inr vals \<Rightarrow>
                Inr (db\<lparr>tbl_jobs := map (\<lambda>j. if j_id j = job_id then fold set_job_column vals j else j)
                                   (tbl_jobs db)\<rparr>)))"

text \<open>
  The claim step of \<^verbatim>\<open>_process_job\<close> ("Mark as running"): its call of \<^verbatim>\<open>update_job\<close>,
  with \<open>now\<close> the clock reading.
\<close>

definition mark_running :: "database \<Rightarrow> string \<Rightarrow> string \<Rightarrow> error + database" where
  "mark_running db job_id now =
     update_job db job_id [(''status'', PStr ''running''), (''started_at'', PStr now)]"

subsection \<open>Chunks and embeddings\<close>

definition delete_chunks :: "database \<Rightarrow> string \<Rightarrow> database" where
  "delete_chunks db paper_id = db\<lparr>tbl_chunks := filter (\<lambda>c. c_paper_id c \<noteq> paper_id) (tbl_chunks db)\<rparr>"

text \<open>\<^verbatim>\<open>INSERT OR REPLACE\<close>: a row with the same primary key is deleted first.\<close>

definition insert_or_replace_chunk :: "chunk \<Rightarrow> chunk list \<Rightarrow> chunk list" where
  "insert_or_replace_chunk c cs = filter (\<lambda>x. c_id x \<noteq> c_id c) cs @ [c]"

definition add_chunks :: "database \<Rightarrow> chunk list \<Rightarrow> database" where
  "add_chunks db cs = db\<lparr>tbl_chunks := fold insert_or_replace_chunk cs (tbl_chunks db)\<rparr>"

text \<open>
  \<^verbatim>\<open>SELECT * FROM chunks WHERE paper_id = ? ORDER BY page, chunk_index\<close>; rows that
  agree on both sort columns come out in rowid order.
\<close>

definition get_chunks :: "database \<Rightarrow> string \<Rightarrow> chunk list" where
  "get_chunks db paper_id =
     sort_key (\<lambda>c. (c_page c, c_chunk_index c)) (filter (\<lambda>c. c_paper_id c = paper_id) (tbl_chunks db))"

definition add_embedding :: "database \<Rightarrow> string \<Rightarrow> byte list \<Rightarrow> database" where
  "add_embedding db chunk_id v =
     db\<lparr>tbl_embeddings := filter (\<lambda>(k, _). k \<noteq> chunk_id) (tbl_embeddings db) @ [(chunk_id, v)]\<rparr>"

section \<open>The embedding service (services/embeddings.py)\<close>

subsection \<open>Vectors and their bytes\<close>

text \<open>
  An embedding is a numpy array of dtype float32, as \<^verbatim>\<open>model.encode\<close> returns it: a
  list of 32-bit patterns, on which \<^verbatim>\<open>astype(np.float32)\<close> is the identity.
  \<^verbatim>\<open>tobytes\<close> writes each element in the machine's byte order (little-endian here);
  \<^verbatim>\<open>np.frombuffer\<close> reads them back and refuses a buffer whose size is not a multiple
  of the element size.
\<close>

type_synonym float32 = "32 word"

definition float32_tobytes :: "float32 \<Rightarrow> byte list" where
  "float32_tobytes w =
     [ucast w, ucast (drop_bit 8 w), ucast (drop_bit 16 w), ucast (drop_bit 24 w)]"

definition float32_frombytes :: "byte \<Rightarrow> byte \<Rightarrow> byte \<Rightarrow> byte \<Rightarrow> float32" where
  "float32_frombytes b0 b1 b2 b3 =
     ucast b0 OR push_bit 8 (ucast b1) OR push_bit 16 (ucast b2) OR push_bit 24 (ucast b3)"

definition vector_to_bytes :: "float32 list \<Rightarrow> byte list" where
  "vector_to_bytes v = concat (map float32_tobytes v)"

fun frombuffer :: "byte list \<Rightarrow> float32 list" where
  "frombuffer (b0 # b1 # b2 # b3 # rest) = float32_frombytes b0 b1 b2 b3 # frombuffer rest"
| "frombuffer _ = []"

definition bytes_to_vector :: "byte list \<Rightarrow> error + float32 list" where
  "bytes_to_vector data =
     (if length data mod 4 \<noteq> 0
      then Inl (ValueError ''buffer size must be a multiple of element size'')
      else Inr (frombuffer data))"

text \<open>
  The number an IEEE 754 binary32 pattern denotes: sign bit 31, exponent bits 30..23,
  fraction bits 22..0; \<open>None\<close> for an infinity or a NaN.
\<close>

definition float32_value :: "float32 \<Rightarrow> real option" where
  "float32_value w =
     (let sgn = (if bit w 31 then - 1 else 1 :: real);
          e = unat (take_bit 8 (drop_bit 23 w));
          m = unat (take_bit 23 w)
      in if e = 255 then None
         else if e = 0 then Some (sgn * real m / 2 ^ 149)
         else if 150 \<le> e then Some (sgn * real (2 ^ 23 + m) * 2 ^ (e - 150))
         else Some (sgn * real (2 ^ 23 + m) / 2 ^ (150 - e)))"

text \<open>Two vectors agree within \<open>tol\<close>, component by component.\<close>

definition within_tolerance :: "real \<Rightarrow> float32 list \<Rightarrow> float32 list \<Rightarrow> bool" where
  "within_tolerance tol v v' =
     (length v' = length v \<and>
      list_all2 (\<lambda>a b. case (float32_value a, float32_value b) of
                          (Some x, Some y) \<Rightarrow> \<bar>x - y\<bar> \<le> tol
                        | (None, None) \<Rightarrow> a = b
                        | _ \<Rightarrow> False) v v')"

subsection \<open>The model and the similarity\<close>

text \<open>
  The sentence-transformers model is a collaborator: \<open>encode_text\<close> is
  \<^verbatim>\<open>model.encode\<close> on one text, \<open>encode_texts\<close> on a list (either may raise, as the
  \<^verbatim>\<open>model\<close> property does when the package is missing). \<open>dot_value\<close> is the float that
  \<^verbatim>\<open>np.dot\<close> computes on two vectors of equal length; its rounding is left open.
\<close>

record embedder =
  encode_text :: "string \<Rightarrow> error + float32 list"
  encode_texts :: "string list \<Rightarrow> error + float32 list list"
  dot_value :: "float32 list \<Rightarrow> float32 list \<Rightarrow> real"

definition embed_text :: "embedder \<Rightarrow> string \<Rightarrow> error + float32 list" where
  "embed_text svc text = encode_text svc text"

definition embed_texts :: "embedder \<Rightarrow> string list \<Rightarrow> error + float32 list list" where
  "embed_texts svc texts = encode_texts svc texts"

text \<open>\<^verbatim>\<open>str(n)\<close> of a natural number, as the f-strings print it.\<close>

definition digit_char :: "nat \<Rightarrow> char" where
  "digit_char d = ''0123456789'' ! d"

fun str_nat :: "nat \<Rightarrow> string" where
  "str_nat n =
     (if n < 10 then [digit_char n] else str_nat (n div 10) @ [digit_char (n mod 10)])"

declare str_nat.simps [simp del]

text \<open>\<^verbatim>\<open>np.dot\<close> on two one-dimensional arrays: the shapes must agree.\<close>

definition np_dot :: "embedder \<Rightarrow> float32 list \<Rightarrow> float32 list \<Rightarrow> error + real" where
  "np_dot svc a b =
     (if length a \<noteq> length b
      then Inl (ValueError (''shapes ('' @ str_nat (length a) @ '',) and ('' @ str_nat (length b)
                  @ '',) not aligned: '' @ str_nat (length a) @ '' (dim 0) != ''
                  @ str_nat (length b) @ '' (dim 0)''))
      else Inr (dot_value svc a b))"

definition cosine_similarity :: "embedder \<Rightarrow> float32 list \<Rightarrow> float32 list \<Rightarrow> error + real" where
  "cosine_similarity svc query_vec doc_vec = np_dot svc query_vec doc_vec"

subsection \<open>Search\<close>

text \<open>Dict operations: \<^verbatim>\<open>d[k]\<close>, \<^verbatim>\<open>d[k] = v\<close> (position kept, or appended) and \<^verbatim>\<open>del d[k]\<close>.\<close>

definition dict_get :: "pydict \<Rightarrow> string \<Rightarrow> error + pyval" where
  "dict_get d k = (case map_of d k of None \<Rightarrow> Inl (KeyError k) | Some v \<Rightarrow> Inr v)"

definition dict_set :: "pydict \<Rightarrow> string \<Rightarrow> pyval \<Rightarrow> pydict" where
  "dict_set d k v = AList.update k v d"

definition dict_del :: "pydict \<Rightarrow> string \<Rightarrow> error + pydict" where
  "dict_del d k = (if map_of d k = None then Inl (KeyError k) else Inr (AList.delete k d))"

text \<open>One round of the loop of \<^verbatim>\<open>search\<close>: the result dict for one chunk.\<close>

definition score_chunk :: "embedder \<Rightarrow> float32 list \<Rightarrow> pydict \<Rightarrow> error + pydict" where
  "score_chunk svc query_vec chunk =
     (case dict_get chunk ''vector'' of
        Inl e \<Rightarrow> Inl e
      | Inr (PBytes data) \<Rightarrow>
          (case bytes_to_vector data of
             Inl e \<Rightarrow> Inl e
           | Inr doc_vec \<Rightarrow>
               (case cosine_similarity svc query_vec doc_vec of
                  Inl e \<Rightarrow> Inl e
                | Inr score \<Rightarrow> dict_del (dict_set chunk ''score'' (PFloat score)) ''vector''))
      | Inr _ \<Rightarrow> Inl (TypeError ''a bytes-like object is required''))"

fun score_chunks :: "embedder \<Rightarrow> float32 list \<Rightarrow> pydict list \<Rightarrow> error + pydict list" where
  "score_chunks svc query_vec [] = Inr []"
| "score_chunks svc query_vec (chunk # rest) =
     (case score_chunk svc query_vec chunk of
        Inl e \<Rightarrow> Inl e
      | Inr result \<Rightarrow>
          (case score_chunks svc query_vec rest of
             Inl e \<Rightarrow> Inl e
           | Inr results \<Rightarrow> Inr (result # results)))"

text \<open>The number a score entry holds (\<^verbatim>\<open>r["score"]\<close> used as a number).\<close>

definition score_of :: "pydict \<Rightarrow> error + real" where
  "score_of r =
     (case dict_get r ''score'' of
        Inl e \<Rightarrow> Inl e
      | Inr (PFloat x) \<Rightarrow> Inr x
      | Inr (PInt n) \<Rightarrow> Inr (of_int n)
      | Inr _ \<Rightarrow> Inl (TypeError ''unsupported operand type(s)''))"

fun scores_of :: "pydict list \<Rightarrow> error + real list" where
  "scores_of [] = Inr []"
| "scores_of (r # rs) =
     (case score_of r of
        Inl e \<Rightarrow> Inl e
      | Inr x \<Rightarrow> (case scores_of rs of Inl e \<Rightarrow> Inl e | Inr xs \<Rightarrow> Inr (x # xs)))"

definition the_score :: "pydict \<Rightarrow> real" where
  "the_score r = (case score_of r of Inr x \<Rightarrow> x | Inl _ \<Rightarrow> 0)"

text \<open>
  \<^verbatim>\<open>results.sort(key=lambda x: x["score"], reverse=True)\<close>: the keys are computed
  first; the sort is stable, and \<^verbatim>\<open>reverse=True\<close> reverses the list before and after
  an ascending stable sort, so equal keys keep their order.
\<close>

definition sort_by_score_reverse :: "pydict list \<Rightarrow> error + pydict list" where
  "sort_by_score_reverse results =
     (case scores_of results of
        Inl e \<Rightarrow> Inl e
      | Inr _ \<Rightarrow> Inr (rev (sort_key the_score (rev results))))"

text \<open>\<^verbatim>\<open>xs[:k]\<close>: a negative \<open>k\<close> counts from the end.\<close>

definition slice_to :: "int \<Rightarrow> 'a list \<Rightarrow> 'a list" where
  "slice_to k xs = (if 0 \<le> k then take (nat k) xs else take (length xs - nat (- k)) xs)"

definition search :: "embedder \<Rightarrow> string \<Rightarrow> pydict list \<Rightarrow> int \<Rightarrow> error + pydict list" where
  "search svc query chunks_with_embeddings top_k =
     (case embed_text svc query of
        Inl e \<Rightarrow> Inl e
      | Inr query_vec \<Rightarrow>
          (case score_chunks svc query_vec chunks_with_embeddings of
             Inl e \<Rightarrow> Inl e
           | Inr results \<Rightarrow>
               (case sort_by_score_reverse results of
                  Inl e \<Rightarrow> Inl e
                | Inr sorted_results \<Rightarrow> Inr (slice_to top_k sorted_results))))"

subsection \<open>Score normalisation\<close>

definition normalize_scores :: "pydict list \<Rightarrow> error + pydict list" where
  "normalize_scores results =
     (if results = [] then Inr results
      else (case scores_of results of
              Inl e \<Rightarrow> Inl e
            | Inr scores \<Rightarrow>
                (let min_score = fold min (tl scores) (hd scores);
                     max_score = fold max (tl scores) (hd scores);
                     score_range = max_score - min_score
                 in if score_range = 0
                    then Inr (map (\<lambda>r. dict_set r ''normalized_score'' (PFloat 0.5)) results)
                    else Inr (map (\<lambda>r. dict_set r ''normalized_score''
                                          (PFloat ((the_score r - min_score) / score_range)))
                                results))))"

section \<open>The batch processor (services/batch_processor.py)\<close>

text \<open>
  The collaborators of the processor: the clock (\<open>utcnow n\<close> is the ISO text of reading
  number \<open>n\<close>), \<^verbatim>\<open>json.dumps\<close>, \<^verbatim>\<open>str(Path(p))\<close> and \<^verbatim>\<open>Path(p).exists()\<close>, the two PDF
  extractors and the embedding service. An extractor returns its chunks without the
  paper id, which the handler adds.
\<close>

record text_block =
  tb_id :: string
  tb_page :: int
  tb_bbox :: string
  tb_text :: string
  tb_chunk_index :: int

record environment =
  utcnow :: "nat \<Rightarrow> string"
  json_dumps :: "pydict \<Rightarrow> string"
  path_str :: "string \<Rightarrow> string"
  path_exists :: "string \<Rightarrow> bool"
  extract_text_from_pdf :: "string \<Rightarrow> error + (text_block list \<times> bool)"
  extract_doi_from_pdf :: "string \<Rightarrow> error + string option"
  embedding_service :: embedder

record progress_event =
  ev_job_id :: string
  ev_status :: string
  ev_progress :: real
  ev_message :: string

text \<open>
  The processor with the database it works on and the number of clock readings taken.
  The progress callback observes an event and may raise (\<open>Some e\<close>).
\<close>

record processor =
  bp_db :: database
  bp_running :: bool
  bp_current_job :: "job option"
  bp_progress_callback :: "(progress_event \<Rightarrow> error option) option"
  bp_clock :: nat

definition utcnow_isoformat :: "environment \<Rightarrow> processor \<Rightarrow> string \<times> processor" where
  "utcnow_isoformat env st = (utcnow env (bp_clock st), st\<lparr>bp_clock := Suc (bp_clock st)\<rparr>)"

definition notify_progress ::
  "processor \<Rightarrow> string \<Rightarrow> string \<Rightarrow> real \<Rightarrow> string \<Rightarrow> error option" where
  "notify_progress st job_id status progress message =
     (case bp_progress_callback st of
        None \<Rightarrow> None
      | Some callback \<Rightarrow>
          callback \<lparr>ev_job_id = job_id, ev_status = status, ev_progress = progress,
                    ev_message = message\<rparr>)"

definition block_chunk :: "string \<Rightarrow> text_block \<Rightarrow> chunk" where
  "block_chunk paper_id b =
     \<lparr>c_id = tb_id b, c_paper_id = paper_id, c_page = tb_page b, c_bbox = tb_bbox b,
      c_text = tb_text b, c_chunk_index = tb_chunk_index b\<rparr>"

text \<open>A handler returns \<open>None\<close> when it returns, \<open>Some e\<close> when it raises \<open>e\<close>.\<close>

definition extract_text ::
  "environment \<Rightarrow> processor \<Rightarrow> paper \<Rightarrow> string \<Rightarrow> error option \<times> processor" where
  "extract_text env st paper pdf_path =
     (let paper_id = p_id paper in
      case notify_progress st [] ''running'' 0.1 ''Extracting text from PDF...'' of
        Some e \<Rightarrow> (Some e, st)
      | None \<Rightarrow>
     (case extract_text_from_pdf env pdf_path of
        Inl e \<Rightarrow> (Some e, st)
      | Inr (blocks, has_text) \<Rightarrow>
          if \<not> has_text then
            (case update_paper (json_dumps env) (bp_db st) paper_id
                    [(''status'', PStr ''needs_ocr''),
                     (''metadata'', PDict [(''has_text'', PBool False)])] of
               Inl e \<Rightarrow> (Some e, st)
             | Inr db' \<Rightarrow> (None, st\<lparr>bp_db := db'\<rparr>))
          else
            (let chunks = map (block_chunk paper_id) blocks in
             case notify_progress st [] ''running'' 0.5
                    (''Saving '' @ str_nat (length chunks) @ '' text chunks...'') of
               Some e \<Rightarrow> (Some e, st)
             | None \<Rightarrow>
                 (let st1 = st\<lparr>bp_db := add_chunks (delete_chunks (bp_db st) paper_id) chunks\<rparr>;
                      (now, st2) = utcnow_isoformat env st1
                  in case update_paper (json_dumps env) (bp_db st2) paper_id
                            [(''indexed_at'', PStr now), (''status'', PStr ''indexed'')] of
                       Inl e \<Rightarrow> (Some e, st2)
                     | Inr db' \<Rightarrow>
                         (let st3 = st2\<lparr>bp_db := db'\<rparr>
                          in (notify_progress st3 [] ''running'' 1.0
                                (''Extracted '' @ str_nat (length chunks) @ '' chunks''), st3))))))"

definition extract_doi ::
  "environment \<Rightarrow> processor \<Rightarrow> paper \<Rightarrow> string \<Rightarrow> error option \<times> processor" where
  "extract_doi env st paper pdf_path =
     (let paper_id = p_id paper in
      case notify_progress st [] ''running'' 0.5 ''Extracting DOI...'' of
        Some e \<Rightarrow> (Some e, st)
      | None \<Rightarrow>
     (case extract_doi_from_pdf env pdf_path of
        Inl e \<Rightarrow> (Some e, st)
      | Inr doi \<Rightarrow>
          (case doi of
             Some d \<Rightarrow>
               if d \<noteq> [] then
                 (case update_paper (json_dumps env) (bp_db st) paper_id [(''doi'', PStr d)] of
                    Inl e \<Rightarrow> (Some e, st)
                  | Inr db' \<Rightarrow>
                      (let st1 = st\<lparr>bp_db := db'\<rparr>
                       in (notify_progress st1 [] ''running'' 1.0 (''Found DOI: '' @ d), st1)))
               else (notify_progress st [] ''running'' 1.0 ''No DOI found'', st)
           | None \<Rightarrow> (notify_progress st [] ''running'' 1.0 ''No DOI found'', st))))"

text \<open>
  The loop of \<^verbatim>\<open>_compute_embeddings\<close> over \<^verbatim>\<open>range(0, len(texts), batch_size)\<close>, from
  index \<open>i\<close> on: \<^verbatim>\<open>zip\<close> pairs the chunks of the batch with the rows the model returned.
\<close>

definition batch_size :: nat where
  "batch_size = 32"

text \<open>The inner loop: one \<^verbatim>\<open>add_embedding\<close> for every pair that \<^verbatim>\<open>zip\<close> yields.\<close>

definition store_embeddings :: "(chunk \<times> float32 list) list \<Rightarrow> database \<Rightarrow> database" where
  "store_embeddings pairs db =
     fold (\<lambda>(chunk, embedding) db. add_embedding db (c_id chunk) (vector_to_bytes embedding))
       pairs db"

function embed_batches ::
  "environment \<Rightarrow> processor \<Rightarrow> chunk list \<Rightarrow> nat \<Rightarrow> error option \<times> processor" where
  "embed_batches env st chunks i =
     (if i < length chunks then
        (let total = length chunks;
             batch_chunks = take batch_size (drop i chunks);
             batch_texts = map c_text batch_chunks
         in case embed_texts (embedding_service env) batch_texts of
              Inl e \<Rightarrow> (Some e, st)
            | Inr embeddings \<Rightarrow>
                (let st1 = st\<lparr>bp_db := store_embeddings (zip batch_chunks embeddings) (bp_db st)\<rparr>;
                     progress = min 0.9 (0.1 + 0.8 * real (i + length batch_texts) / real total)
                 in case notify_progress st1 [] ''running'' progress
                           (''Embedded '' @ str_nat (min (i + batch_size) total) @ ''/''
                              @ str_nat total) of
                      Some e \<Rightarrow> (Some e, st1)
                    | None \<Rightarrow> embed_batches env st1 chunks (i + batch_size)))
      else (None, st))"
  by pat_completeness auto
termination
  by (relation "measure (\<lambda>(env, st, chunks, i). length chunks - i)") (auto simp: batch_size_def)

declare embed_batches.simps [simp del]

definition compute_embeddings ::
  "environment \<Rightarrow> processor \<Rightarrow> paper \<Rightarrow> error option \<times> processor" where
  "compute_embeddings env st paper =
     (let paper_id = p_id paper;
          chunks = get_chunks (bp_db st) paper_id
      in if chunks = [] then
           (Some (ValueError (''No chunks found for paper '' @ paper_id
                                @ ''. Run text extraction first.'')), st)
         else
           (let total = length chunks in
            case notify_progress st [] ''running'' 0.1
                   (''Computing embeddings for '' @ str_nat total @ '' chunks...'') of
              Some e \<Rightarrow> (Some e, st)
            | None \<Rightarrow>
                (case embed_batches env st chunks 0 of
                   (Some e, st1) \<Rightarrow> (Some e, st1)
                 | (None, st1) \<Rightarrow>
                     (case update_paper (json_dumps env) (bp_db st1) paper_id
                             [(''embeddings_ready'', PInt 1)] of
                        Inl e \<Rightarrow> (Some e, st1)
                      | Inr db' \<Rightarrow>
                          (let st2 = st1\<lparr>bp_db := db'\<rparr>
                           in (notify_progress st2 [] ''running'' 1.0
                                 (''Computed '' @ str_nat total @ '' embeddings''), st2))))))"

text \<open>The routing of \<^verbatim>\<open>_process_job\<close> to the handler of the job type.\<close>

definition run_handler ::
  "environment \<Rightarrow> processor \<Rightarrow> string \<Rightarrow> paper \<Rightarrow> string \<Rightarrow> error option \<times> processor" where
  "run_handler env st job_type paper pdf_path =
     (if job_type = ''EXTRACT_TEXT'' then extract_text env st paper pdf_path
      else if job_type = ''EXTRACT_DOI'' then extract_doi env st paper pdf_path
      else if job_type = ''EMBED'' then compute_embeddings env st paper
      else (Some (ValueError (''Unknown job type: '' @ job_type)), st))"

definition process_job :: "environment \<Rightarrow> processor \<Rightarrow> job \<Rightarrow> error option \<times> processor" where
  "process_job env st job =
     (let job_id = j_id job; job_type = j_type job; paper_id = j_paper_id job;
          (now, st0) = utcnow_isoformat env st
      in case mark_running (bp_db st0) job_id now of
           Inl e \<Rightarrow> (Some e, st0)
         | Inr db1 \<Rightarrow>
        (let st1 = st0\<lparr>bp_db := db1\<rparr> in
         case notify_progress st1 job_id ''running'' 0 (''Starting '' @ job_type) of
           Some e \<Rightarrow> (Some e, st1)
         | None \<Rightarrow>
        (case get_paper (bp_db st1) paper_id of
           None \<Rightarrow> (Some (ValueError (''Paper '' @ paper_id @ '' not found'')), st1)
         | Some paper \<Rightarrow>
        (let pdf_path = p_local_pdf_path paper in
         if \<not> path_exists env pdf_path
         then (Some (FileNotFoundError (''PDF not found: '' @ path_str env pdf_path)), st1)
         else
        (case run_handler env st1 job_type paper pdf_path of
           (Some e, st2) \<Rightarrow> (Some e, st2)
         | (None, st2) \<Rightarrow>
             (let (now2, st3) = utcnow_isoformat env st2
              in case update_job (bp_db st3) job_id
                        [(''status'', PStr ''completed''), (''finished_at'', PStr now2)] of
                   Inl e \<Rightarrow> (Some e, st3)
                 | Inr db4 \<Rightarrow>
                     (let st4 = st3\<lparr>bp_db := db4\<rparr>
                      in (notify_progress st4 job_id ''completed'' 1.0
                            (''Completed '' @ job_type), st4))))))))"

text \<open>
  The \<^verbatim>\<open>except Exception\<close> branch of \<^verbatim>\<open>run_batch\<close>: the job is marked failed with the
  text of the error.
\<close>

definition mark_failed ::
  "environment \<Rightarrow> processor \<Rightarrow> job \<Rightarrow> error \<Rightarrow> error option \<times> processor" where
  "mark_failed env st job e =
     (let (now, st1) = utcnow_isoformat env st
      in case update_job (bp_db st1) (j_id job)
                [(''status'', PStr ''failed''), (''error'', PStr (str_of_error e)),
                 (''finished_at'', PStr now)] of
           Inl e' \<Rightarrow> (Some e', st1)
         | Inr db' \<Rightarrow> (None, st1\<lparr>bp_db := db'\<rparr>))"

subsection \<open>The batch loop\<close>

text \<open>
  What the three status updates of the processor do to a job row, and an update of
  the rows with a given id; used to show that every round of the loop takes a job out
  of the pending ones, so that the loop ends.
\<close>

definition update_rows :: "string \<Rightarrow> (job \<Rightarrow> job) \<Rightarrow> job list \<Rightarrow> job list" where
  "update_rows jid F js = map (\<lambda>j. if j_id j = jid then F j else j) js"

definition job_running :: "string \<Rightarrow> job \<Rightarrow> job" where
  "job_running t j = j\<lparr>j_status := SText ''running'', j_started_at := SText t\<rparr>"

definition job_completed :: "string \<Rightarrow> job \<Rightarrow> job" where
  "job_completed t j = j\<lparr>j_status := SText ''completed'', j_finished_at := SText t\<rparr>"

definition job_failed :: "string \<Rightarrow> string \<Rightarrow> job \<Rightarrow> job" where
  "job_failed msg t j = j\<lparr>j_status := SText ''failed'', j_error := SText msg, j_finished_at := SText t\<rparr>"

lemma mark_running_eq:
  "mark_running db job_id now =
     Inr (db\<lparr>tbl_jobs := map (\<lambda>j. if j_id j = job_id
                                   then j\<lparr>j_status := SText ''running'', j_started_at := SText now\<rparr>
                                   else j) (tbl_jobs db)\<rparr>)"
  by (simp add: mark_running_def update_job_def job_allowed_fields_def)

lemma update_job_completed_eq:
  "update_job db job_id [(''status'', PStr ''completed''), (''finished_at'', PStr now)] =
     Inr (db\<lparr>tbl_jobs := map (\<lambda>j. if j_id j = job_id
                                   then j\<lparr>j_status := SText ''completed'', j_finished_at := SText now\<rparr>
                                   else j) (tbl_jobs db)\<rparr>)"
  by (simp add: update_job_def job_allowed_fields_def)

lemma update_job_failed_eq:
  "update_job db job_id [(''status'', PStr ''failed''), (''error'', PStr msg), (''finished_at'', PStr now)] =
     Inr (db\<lparr>tbl_jobs := map (\<lambda>j. if j_id j = job_id
                                   then j\<lparr>j_status := SText ''failed'', j_error := SText msg, j_finished_at := SText now\<rparr>
                                   else j) (tbl_jobs db)\<rparr>)"
  by (simp add: update_job_def job_allowed_fields_def)

lemma update_paper_jobs:
  "update_paper dumps db pid ups = Inr db' \<Longrightarrow> tbl_jobs db' = tbl_jobs db"
  by (auto simp: update_paper_def Let_def split: sum.splits if_splits)

lemma store_embeddings_jobs: "tbl_jobs (store_embeddings ps db) = tbl_jobs db"
  unfolding store_embeddings_def
  by (induction ps arbitrary: db) (auto simp: add_embedding_def)

lemma embed_batches_jobs:
  "tbl_jobs (bp_db (snd (embed_batches env st chunks i))) = tbl_jobs (bp_db st)"
proof (induction env st chunks i rule: embed_batches.induct)
  case (1 env st chunks i)
  show ?case
    apply (subst embed_batches.simps)
    using 1 by (auto simp: Let_def store_embeddings_jobs split: sum.splits option.splits)
qed

lemma extract_text_jobs:
  "tbl_jobs (bp_db (snd (extract_text env st paper pdf_path))) = tbl_jobs (bp_db st)"
  by (auto simp: extract_text_def Let_def utcnow_isoformat_def add_chunks_def delete_chunks_def
      dest: update_paper_jobs split: option.splits sum.splits prod.splits)

lemma extract_doi_jobs:
  "tbl_jobs (bp_db (snd (extract_doi env st paper pdf_path))) = tbl_jobs (bp_db st)"
  by (auto simp: extract_doi_def Let_def dest: update_paper_jobs split: option.splits sum.splits)

lemma compute_embeddings_jobs:
  "tbl_jobs (bp_db (snd (compute_embeddings env st paper))) = tbl_jobs (bp_db st)"
  using embed_batches_jobs[of env st "get_chunks (bp_db st) (p_id paper)" 0]
  by (auto simp: compute_embeddings_def Let_def dest: update_paper_jobs split: option.splits sum.splits prod.splits)

lemma run_handler_jobs:
  "tbl_jobs (bp_db (snd (run_handler env st job_type paper pdf_path))) = tbl_jobs (bp_db st)"
  by (simp add: run_handler_def extract_text_jobs extract_doi_jobs compute_embeddings_jobs)

lemma update_rows_comp: "update_rows jid G (update_rows jid F js) = update_rows jid (G \<circ> F) js"
  if "\<And>j. j_id (F j) = j_id j"
  by (induction js) (auto simp: update_rows_def that)

lemma run_handler_jobs_dest:
  "run_handler env st jt paper pth = (r, st2) \<Longrightarrow> tbl_jobs (bp_db st2) = tbl_jobs (bp_db st)"
  using run_handler_jobs[of env st jt paper pth] by simp


lemma mark_running_rows:
  "mark_running db job_id now =
     Inr (db\<lparr>tbl_jobs := update_rows job_id (job_running now) (tbl_jobs db)\<rparr>)"
  by (simp add: mark_running_eq update_rows_def job_running_def)

lemma update_job_completed_rows:
  "update_job db job_id [(''status'', PStr ''completed''), (''finished_at'', PStr now)] =
     Inr (db\<lparr>tbl_jobs := update_rows job_id (job_completed now) (tbl_jobs db)\<rparr>)"
  by (simp add: update_job_completed_eq update_rows_def job_completed_def)

lemma update_job_failed_rows:
  "update_job db job_id [(''status'', PStr ''failed''), (''error'', PStr msg), (''finished_at'', PStr now)] =
     Inr (db\<lparr>tbl_jobs := update_rows job_id (job_failed msg now) (tbl_jobs db)\<rparr>)"
  by (simp add: update_job_failed_eq update_rows_def job_failed_def)

lemma update_rows_running_comp:
  "update_rows jid G (update_rows jid (job_running t) js) = update_rows jid (G \<circ> job_running t) js"
  by (rule update_rows_comp) (simp add: job_running_def)

lemma process_job_rows:
  assumes "process_job env st job = (r, st')"
  shows "(tbl_jobs (bp_db st') =
            update_rows (j_id job) (job_running (utcnow env (bp_clock st))) (tbl_jobs (bp_db st))
          \<and> r \<noteq> None)
       \<or> (\<exists>t'. tbl_jobs (bp_db st') =
              update_rows (j_id job) (job_completed t' \<circ> job_running (utcnow env (bp_clock st)))
                (tbl_jobs (bp_db st)))"
  using assms
  by (auto simp: process_job_def Let_def utcnow_isoformat_def mark_running_rows
        update_job_completed_rows update_rows_running_comp
      dest!: run_handler_jobs_dest
      split: option.splits prod.splits if_splits)

lemma filter_pending_update_rows:
  assumes "\<And>j. \<not> is_pending (F j)"
  shows "filter is_pending (update_rows jid F js) =
         filter (\<lambda>j. j_id j \<noteq> jid) (filter is_pending js)"
  by (induction js) (auto simp: assms update_rows_def)

lemma process_job_pending:
  assumes "process_job env st job = (r, st')"
  shows "filter is_pending (tbl_jobs (bp_db st')) =
         filter (\<lambda>j. j_id j \<noteq> j_id job) (filter is_pending (tbl_jobs (bp_db st)))"
  using process_job_rows[OF assms]
  by (auto simp: filter_pending_update_rows is_pending_def job_running_def job_completed_def)

lemma mark_failed_rows:
  "mark_failed env st job e =
     (None, st\<lparr>bp_clock := Suc (bp_clock st),
              bp_db := (bp_db st)\<lparr>tbl_jobs := update_rows (j_id job)
                 (job_failed (str_of_error e) (utcnow env (bp_clock st))) (tbl_jobs (bp_db st))\<rparr>\<rparr>)"
  by (simp add: mark_failed_def utcnow_isoformat_def update_job_failed_rows)

lemma mark_failed_pending:
  assumes "mark_failed env st job e = (r, st')"
  shows "filter is_pending (tbl_jobs (bp_db st')) =
         filter (\<lambda>j. j_id j \<noteq> j_id job) (filter is_pending (tbl_jobs (bp_db st)))"
  using assms
  by (auto simp: mark_failed_rows filter_pending_update_rows is_pending_def job_failed_def)

lemma head_pending_removed:
  assumes "get_pending_jobs db = job # rest"
  shows "length (filter (\<lambda>j. j_id j \<noteq> j_id job) (filter is_pending (tbl_jobs db)))
           < length (filter is_pending (tbl_jobs db))"
proof -
  have "job \<in> set (get_pending_jobs db)" using assms by simp
  then have "job \<in> set (filter is_pending (tbl_jobs db))"
    by (simp add: get_pending_jobs_def)
  then show ?thesis
    by (intro length_filter_less[where x = job]) auto
qed

text \<open>
  The \<^verbatim>\<open>while True\<close> loop of \<^verbatim>\<open>run_batch\<close> with its counters; an error raised inside the
  \<^verbatim>\<open>except\<close> branch leaves the loop.
\<close>

function run_loop ::
  "environment \<Rightarrow> processor \<Rightarrow> nat \<Rightarrow> nat \<Rightarrow> (string \<times> string) list
     \<Rightarrow> (error + nat \<times> nat \<times> (string \<times> string) list) \<times> processor" where
  "run_loop env st processed failed errors =
     (case get_pending_jobs (bp_db st) of
        [] \<Rightarrow> (Inr (processed, failed, errors), st)
      | job # _ \<Rightarrow>
          (let st1 = st\<lparr>bp_current_job := Some job\<rparr> in
           case process_job env st1 job of
             (None, st2) \<Rightarrow>
               run_loop env (st2\<lparr>bp_current_job := None\<rparr>) (processed + 1) failed errors
           | (Some e, st2) \<Rightarrow>
               (case mark_failed env st2 job e of
                  (Some e', st3) \<Rightarrow> (Inl e', st3)
                | (None, st3) \<Rightarrow>
                    run_loop env (st3\<lparr>bp_current_job := None\<rparr>) processed (failed + 1)
                      (errors @ [(j_id job, str_of_error e)]))))"
  by pat_completeness auto
termination
proof (relation "measure (\<lambda>(env, st, processed, failed, errors).
                    length (filter is_pending (tbl_jobs (bp_db st))))", goal_cases)
  case 1
  show ?case by simp
next
  case (2 env st processed failed errors job rest st1 r st2)
  then have "process_job env (st\<lparr>bp_current_job := Some job\<rparr>) job = (r, st2)"
    by simp
  from process_job_pending[OF this] head_pending_removed[OF 2(1)]
  show ?case by simp
next
  case (3 env st processed failed errors job rest st1 r st2 e r' st3)
  then have a: "process_job env (st\<lparr>bp_current_job := Some job\<rparr>) job = (r, st2)"
    and b: "mark_failed env st2 job e = (r', st3)"
    by simp_all
  from process_job_pending[OF a] mark_failed_pending[OF b] head_pending_removed[OF 3(1)]
  show ?case by simp
qed

declare run_loop.simps [simp del]

datatype batch_result =
    Busy string
  | Completed nat nat "(string \<times> string) list option"

text \<open>
  \<^verbatim>\<open>run_batch\<close>: the busy answer when a run is active, else the loop between setting and
  (\<^verbatim>\<open>finally\<close>) clearing \<^verbatim>\<open>_running\<close>.
\<close>

definition run_batch :: "environment \<Rightarrow> processor \<Rightarrow> (error + batch_result) \<times> processor" where
  "run_batch env st =
     (if bp_running st then (Inr (Busy ''Batch already running''), st)
      else (case run_loop env (st\<lparr>bp_running := True\<rparr>) 0 0 [] of
              (Inl e, st') \<Rightarrow> (Inl e, st'\<lparr>bp_running := False\<rparr>)
            | (Inr (processed, failed, errors), st') \<Rightarrow>
                (Inr (Completed processed failed (if errors = [] then None else Some errors)),
                 st'\<lparr>bp_running := False\<rparr>)))"

section \<open>Auxiliary definitions and example data\<close>

text \<open>The columns of a paper and of a job that are outside the allowed lists.\<close>

definition paper_fixed :: "paper \<Rightarrow> string \<times> sqlval \<times> string \<times> string" where
  "paper_fixed p = (p_id p, p_source_url p, p_local_pdf_path p, p_added_at p)"

definition job_fixed :: "job \<Rightarrow> string \<times> string \<times> string \<times> int \<times> string \<times> string" where
  "job_fixed j = (j_id j, j_paper_id j, j_type j, j_priority j, j_created_at j, j_metadata j)"

text \<open>
  A small database: one paper without chunks and four jobs, two of which share priority
  and timestamp; one job is completed, two refer to a paper that does not exist.
\<close>

definition demo_job :: "string \<Rightarrow> string \<Rightarrow> string \<Rightarrow> sqlval \<Rightarrow> int \<Rightarrow> string \<Rightarrow> job" where
  "demo_job jid pid ty st prio created =
     \<lparr>j_id = jid, j_paper_id = pid, j_type = ty, j_status = st, j_priority = prio,
      j_error = SNull, j_created_at = created, j_started_at = SNull, j_finished_at = SNull,
      j_metadata = ''{}''\<rparr>"

definition demo_jobs :: "job list" where
  "demo_jobs =
     [demo_job ''job-1'' ''paper-1'' ''EMBED'' (SText ''pending'') 1 ''2024-01-01T10:00:00.000001'',
      demo_job ''job-2'' ''paper-1'' ''EXTRACT_TEXT'' (SText ''pending'') 10 ''2024-01-01T10:00:00.000002'',
      demo_job ''job-3'' ''paper-2'' ''EXTRACT_TEXT'' (SText ''pending'') 10 ''2024-01-01T10:00:00.000002'',
      demo_job ''job-4'' ''paper-2'' ''EXTRACT_DOI'' (SText ''completed'') 10 ''2024-01-01T10:00:01'']"

definition demo_paper :: paper where
  "demo_paper =
     \<lparr>p_id = ''paper-1'', p_title = SText ''A paper'', p_authors = SNull, p_year = SNull,
      p_doi = SNull, p_source_url = SNull, p_local_pdf_path = ''/pdfs/paper-1.pdf'',
      p_added_at = ''2024-01-01T09:00:00'', p_indexed_at = SNull, p_embeddings_ready = SInt 0,
      p_status = SText ''pending'', p_collection = SText ''default'', p_metadata = SText ''{}''\<rparr>"

definition demo_db :: database where
  "demo_db =
     \<lparr>tbl_papers = [demo_paper], tbl_chunks = [], tbl_embeddings = [], tbl_jobs = demo_jobs\<rparr>"

text \<open>Search results as the test of \<^verbatim>\<open>normalize_scores\<close> has them.\<close>

definition demo_results :: "pydict list" where
  "demo_results =
     [[(''id'', PStr ''1''), (''score'', PFloat (9 / 10))],
      [(''id'', PStr ''2''), (''score'', PFloat (5 / 10))],
      [(''id'', PStr ''3''), (''score'', PFloat (1 / 10))]]"

definition demo_scores :: "real list" where
  "demo_scores = [9 / 10, 5 / 10, 1 / 10]"

text \<open>The order of the pending queue: higher priority first, then older first.\<close>

definition priority_then_created :: "job \<Rightarrow> job \<Rightarrow> bool" where
  "priority_then_created a b =
     (j_priority b < j_priority a \<or> (j_priority a = j_priority b \<and> j_created_at a \<le> j_created_at b))"

text \<open>
  Collaborators for the examples: the model maps every text to the vector \<open>(1.0, 0.0)\<close>,
  the text extractor cannot open any document, only the PDF of the example paper
  exists.
\<close>

definition demo_embedder :: embedder where
  "demo_embedder =
     \<lparr>encode_text = (\<lambda>text. Inr [0x3F800000, 0]),
      encode_texts = (\<lambda>texts. Inr (map (\<lambda>text. [0x3F800000, 0]) texts)),
      dot_value = (\<lambda>a b. if a = b then 1 else 0)\<rparr>"

definition demo_env :: environment where
  "demo_env =
     \<lparr>utcnow = (\<lambda>n. ''2024-01-02T00:00:00.'' @ str_nat n),
      json_dumps = (\<lambda>d. ''{}''),
      path_str = (\<lambda>p. p),
      path_exists = (\<lambda>p. p = ''/pdfs/paper-1.pdf''),
      extract_text_from_pdf = (\<lambda>p. Inl (RuntimeError ''cannot open broken document'')),
      extract_doi_from_pdf = (\<lambda>p. Inr None),
      embedding_service = demo_embedder\<rparr>"

definition demo_processor :: processor where
  "demo_processor =
     \<lparr>bp_db = demo_db, bp_running = False, bp_current_job = None,
      bp_progress_callback = None, bp_clock = 0\<rparr>"

definition demo_chunk_rows :: "chunk list" where
  "demo_chunk_rows =
     [\<lparr>c_id = ''chunk-a'', c_paper_id = ''paper-1'', c_page = 0, c_bbox = ''{}'',
       c_text = ''a cat sat on the mat'', c_chunk_index = 0\<rparr>,
      \<lparr>c_id = ''chunk-b'', c_paper_id = ''paper-1'', c_page = 0, c_bbox = ''{}'',
       c_text = ''the stock market fell'', c_chunk_index = 1\<rparr>]"

text \<open>
  Candidates for \<^verbatim>\<open>search\<close>: the second and third have the same vector, the vector of
  the last one has three components.
\<close>

definition demo_candidate :: "string \<Rightarrow> float32 list \<Rightarrow> pydict" where
  "demo_candidate cid v =
     [(''id'', PStr cid), (''page'', PInt 0), (''vector'', PBytes (vector_to_bytes v))]"

definition demo_candidates :: "pydict list" where
  "demo_candidates =
     [demo_candidate ''chunk-a'' [0, 0x3F800000],
      demo_candidate ''chunk-b'' [0x3F800000, 0],
      demo_candidate ''chunk-c'' [0x3F800000, 0]]"

definition demo_bad_candidate :: pydict where
  "demo_bad_candidate = demo_candidate ''chunk-d'' [0x3F800000, 0, 0]"

definition demo_hit :: "string \<Rightarrow> real \<Rightarrow> pydict" where
  "demo_hit cid s = [(''id'', PStr cid), (''page'', PInt 0), (''score'', PFloat s)]"

text \<open>
  The contract of the embedding model: one vector for every text of the batch.
\<close>

definition equal_count :: "embedder \<Rightarrow> bool" where
  "equal_count svc = (\<forall>texts vecs. encode_texts svc texts = Inr vecs \<longrightarrow> length vecs = length texts)"

text \<open>What a completed embedding pass has done to the row of its paper.\<close>

definition paper_embeddings_ready :: "string \<Rightarrow> paper list \<Rightarrow> paper list" where
  "paper_embeddings_ready paper_id rows =
     map (\<lambda>p. if p_id p = paper_id then p\<lparr>p_embeddings_ready := SInt 1\<rparr> else p) rows"

definition demo_db_chunks :: database where
  "demo_db_chunks = demo_db\<lparr>tbl_chunks := demo_chunk_rows\<rparr>"


text \<open>The error of an embedding pass over a paper without chunks.\<close>

definition no_chunks_error :: "string \<Rightarrow> error" where
  "no_chunks_error paper_id =
     ValueError (''No chunks found for paper '' @ paper_id @ ''. Run text extraction first.'')"





text \<open>States of the example processor: after an embedding pass over two chunks, after
  claiming the EMBED job, during a batch run, and after the text extraction failed.\<close>

definition demo_embedded :: processor where
  "demo_embedded =
     demo_processor\<lparr>bp_db := demo_db_chunks
        \<lparr>tbl_embeddings := [(''chunk-a'', vector_to_bytes [0x3F800000, 0]),
                            (''chunk-b'', vector_to_bytes [0x3F800000, 0])],
         tbl_papers := [demo_paper\<lparr>p_embeddings_ready := SInt 1\<rparr>]\<rparr>\<rparr>"

definition demo_claimed :: processor where
  "demo_claimed =
     demo_processor\<lparr>bp_clock := 1,
        bp_db := demo_db\<lparr>tbl_jobs :=
           update_rows ''job-1'' (job_running ''2024-01-02T00:00:00.0'') demo_jobs\<rparr>\<rparr>"



section \<open>The pending queue\<close>

lemma pending_key_le:
  "((- j_priority a, j_created_at a) \<le> (- j_priority b, j_created_at b)) = priority_then_created a b"
  by (auto simp: priority_then_created_def less_eq_prod_def)

lemma get_pending_jobs_sorted: "sorted_wrt priority_then_created (get_pending_jobs db)"
proof -
  have "sorted (map (\<lambda>j. (- j_priority j, j_created_at j)) (get_pending_jobs db))"
    unfolding get_pending_jobs_def by (rule sorted_sort_key)
  then have "sorted_wrt (\<lambda>a b. (- j_priority a, j_created_at a) \<le> (- j_priority b, j_created_at b))
               (get_pending_jobs db)"
    by (simp only: sorted_map)
  then show ?thesis
    by (rule sorted_wrt_mono_rel[rotated]) (simp only: pending_key_le)
qed

lemma get_pending_jobs_stable:
  assumes "sorted (map j_created_at (tbl_jobs db))"
  shows "filter (\<lambda>j. j_priority j = p) (get_pending_jobs db) =
         filter (\<lambda>j. j_priority j = p) (filter is_pending (tbl_jobs db))"
proof -
  let ?k = "\<lambda>j. (- j_priority j, j_created_at j)"
  let ?xs = "filter (\<lambda>j. j_priority j = p) (filter is_pending (tbl_jobs db))"
  have "sorted_wrt (\<lambda>a b. j_created_at a \<le> j_created_at b) (tbl_jobs db)"
    using assms by (simp add: sorted_map)
  then have "sorted_wrt (\<lambda>a b. j_created_at a \<le> j_created_at b) ?xs"
    by (simp add: sorted_wrt_filter)
  then have "sorted_wrt (\<lambda>a b. ?k a \<le> ?k b) ?xs"
    by (rule sorted_wrt_mono_rel[rotated]) (auto simp: less_eq_prod_def)
  then have "sort_key ?k ?xs = ?xs"
    by (intro sort_key_id_if_sorted) (simp add: sorted_map)
  then show ?thesis
    by (simp add: get_pending_jobs_def filter_sort)
qed
lemma add_job_keeps_order:
  assumes "sorted (map j_created_at (tbl_jobs db))"
    and "\<forall>j \<in> set (tbl_jobs db). j_created_at j \<le> now"
    and "add_job now db req = Inr (jid, db')"
  shows "sorted (map j_created_at (tbl_jobs db'))"
  using assms by (auto simp: add_job_def Let_def sorted_append split: if_splits sum.splits)

text \<open>
  C1. \<^verbatim>\<open>get_pending_jobs\<close> returns exactly the pending jobs (as a multiset), ordered by
  priority descending and then creation time ascending. When the creation times do
  not decrease along the table, as for rows stamped by \<^verbatim>\<open>add_job\<close> from a clock that
  does not run backwards, the jobs of each priority come out in their insertion order.
\<close>

theorem get_pending_jobs_order:
  "mset (get_pending_jobs db) = mset (filter is_pending (tbl_jobs db))
   \<and> sorted_wrt priority_then_created (get_pending_jobs db)
   \<and> (sorted (map j_created_at (tbl_jobs db)) \<longrightarrow>
        (\<forall>p. filter (\<lambda>j. j_priority j = p) (get_pending_jobs db) =
             filter (\<lambda>j. j_priority j = p) (filter is_pending (tbl_jobs db))))"
  using get_pending_jobs_sorted get_pending_jobs_stable
  by (simp add: get_pending_jobs_def)

lemma demo_sorted: "sorted (map j_created_at (tbl_jobs demo_db))"
  by (simp add: demo_db_def demo_jobs_def demo_job_def)

lemma demo_pending: "get_pending_jobs demo_db = [demo_jobs ! 1, demo_jobs ! 2, demo_jobs ! 0]"
  by (simp add: get_pending_jobs_def demo_db_def demo_jobs_def demo_job_def is_pending_def less_eq_prod_def)

theorem get_pending_jobs_order_witness:
  "sorted (map j_created_at (tbl_jobs demo_db))
   \<and> get_pending_jobs demo_db = [demo_jobs ! 1, demo_jobs ! 2, demo_jobs ! 0]
   \<and> mset (get_pending_jobs demo_db) = mset (filter is_pending (tbl_jobs demo_db))
   \<and> sorted_wrt priority_then_created (get_pending_jobs demo_db)
   \<and> (\<forall>p. filter (\<lambda>j. j_priority j = p) (get_pending_jobs demo_db) =
             filter (\<lambda>j. j_priority j = p) (filter is_pending (tbl_jobs demo_db)))"
  using get_pending_jobs_order[of demo_db] demo_sorted demo_pending by simp

section \<open>Claiming a job\<close>

text \<open>
  C2 (as amended). Marking a job running never fails and does not look at the current
  status: the rows with the given id get status \<^verbatim>\<open>running\<close> and the clock reading as
  \<^verbatim>\<open>started_at\<close>, whatever their status was; the other rows are unchanged.
\<close>

theorem mark_running_unconditional:
  "mark_running db job_id now =
     Inr (db\<lparr>tbl_jobs := map (\<lambda>j. if j_id j = job_id
                                   then j\<lparr>j_status := SText ''running'', j_started_at := SText now\<rparr>
                                   else j) (tbl_jobs db)\<rparr>)"
  by (simp add: mark_running_def update_job_def job_allowed_fields_def)

text \<open>
  The claim as stated fails: a completed job is marked running again, and the call
  succeeds.
\<close>

theorem mark_running_not_pending_counterexample:
  "\<not> is_pending (demo_jobs ! 3)
   \<and> j_id (demo_jobs ! 3) = ''job-4''
   \<and> mark_running demo_db ''job-4'' ''2024-01-02T08:00:00'' =
       Inr (demo_db\<lparr>tbl_jobs :=
              [demo_jobs ! 0, demo_jobs ! 1, demo_jobs ! 2,
               (demo_jobs ! 3)\<lparr>j_status := SText ''running'',
                               j_started_at := SText ''2024-01-02T08:00:00''\<rparr>]\<rparr>)"
  by (simp add: mark_running_def update_job_def job_allowed_fields_def demo_db_def demo_jobs_def
      demo_job_def is_pending_def)

section \<open>Updates touch the allowed fields only\<close>

lemma paper_set_clauses_filter:
  "paper_set_clauses dumps (filter (\<lambda>(f, v). f \<in> set paper_allowed_fields) ups) =
   paper_set_clauses dumps ups"
  by (induction ups) (auto simp del: set_simps)

lemma job_set_clauses_filter:
  "job_set_clauses (filter (\<lambda>(f, v). f \<in> set job_allowed_fields) ups) = job_set_clauses ups"
  by (induction ups) (auto simp del: set_simps)
lemma set_paper_column_fixed: "paper_fixed (set_paper_column a p) = paper_fixed p"
  by (cases a) (simp add: paper_fixed_def)

lemma fold_set_paper_column_fixed: "paper_fixed (fold set_paper_column vals p) = paper_fixed p"
  by (induction vals arbitrary: p) (simp_all add: set_paper_column_fixed)

lemma set_job_column_fixed: "job_fixed (set_job_column a j) = job_fixed j"
  by (cases a) (simp add: job_fixed_def)

lemma fold_set_job_column_fixed: "job_fixed (fold set_job_column vals j) = job_fixed j"
  by (induction vals arbitrary: j) (simp_all add: set_job_column_fixed)

lemma update_paper_frame:
  assumes "update_paper dumps db pid ups = Inr db'"
  shows "map paper_fixed (tbl_papers db') = map paper_fixed (tbl_papers db)"
    and "tbl_chunks db' = tbl_chunks db" and "tbl_embeddings db' = tbl_embeddings db"
    and "tbl_jobs db' = tbl_jobs db"
  using assms
  by (auto simp: update_paper_def Let_def fold_set_paper_column_fixed
      split: sum.splits if_splits)

lemma update_job_frame:
  assumes "update_job db jid ups = Inr db'"
  shows "map job_fixed (tbl_jobs db') = map job_fixed (tbl_jobs db)"
    and "tbl_chunks db' = tbl_chunks db" and "tbl_embeddings db' = tbl_embeddings db"
    and "tbl_papers db' = tbl_papers db"
  using assms
  by (auto simp: update_job_def Let_def fold_set_job_column_fixed
      split: sum.splits if_splits)

text \<open>
  C10. \<^verbatim>\<open>update_paper\<close> and \<^verbatim>\<open>update_job\<close> give the same result when the keys outside
  the allowed list are dropped from the updates, and a successful update leaves
  \<^verbatim>\<open>id\<close>, \<^verbatim>\<open>source_url\<close>, \<^verbatim>\<open>local_pdf_path\<close> and \<^verbatim>\<open>added_at\<close> of every paper (\<^verbatim>\<open>id\<close>,
  \<^verbatim>\<open>paper_id\<close>, \<^verbatim>\<open>type\<close>, \<^verbatim>\<open>priority\<close>, \<^verbatim>\<open>created_at\<close> and \<^verbatim>\<open>metadata\<close> of every job) and
  all other tables as they were.
\<close>

theorem updates_change_allowed_fields_only:
  "update_paper dumps db pid ups =
     update_paper dumps db pid (filter (\<lambda>(f, v). f \<in> set paper_allowed_fields) ups)
   \<and> (\<forall>db'. update_paper dumps db pid ups = Inr db' \<longrightarrow>
          map paper_fixed (tbl_papers db') = map paper_fixed (tbl_papers db)
          \<and> tbl_chunks db' = tbl_chunks db \<and> tbl_embeddings db' = tbl_embeddings db
          \<and> tbl_jobs db' = tbl_jobs db)
   \<and> update_job db jid jups =
       update_job db jid (filter (\<lambda>(f, v). f \<in> set job_allowed_fields) jups)
   \<and> (\<forall>db'. update_job db jid jups = Inr db' \<longrightarrow>
          map job_fixed (tbl_jobs db') = map job_fixed (tbl_jobs db)
          \<and> tbl_chunks db' = tbl_chunks db \<and> tbl_embeddings db' = tbl_embeddings db
          \<and> tbl_papers db' = tbl_papers db)"
  using update_paper_frame update_job_frame
  by (simp add: update_paper_def update_job_def paper_set_clauses_filter job_set_clauses_filter)

theorem updates_change_allowed_fields_only_witness:
  "update_paper (\<lambda>d. ''{}'') demo_db ''paper-1''
       [(''id'', PStr ''paper-9''), (''status'', PStr ''indexed''), (''added_at'', PStr ''never'')]
     = Inr (demo_db\<lparr>tbl_papers := [demo_paper\<lparr>p_status := SText ''indexed''\<rparr>]\<rparr>)
   \<and> map paper_fixed [demo_paper\<lparr>p_status := SText ''indexed''\<rparr>] = map paper_fixed (tbl_papers demo_db)
   \<and> update_job demo_db ''job-4'' [(''priority'', PInt 99), (''error'', PStr ''boom'')]
     = Inr (demo_db\<lparr>tbl_jobs := [demo_jobs ! 0, demo_jobs ! 1, demo_jobs ! 2,
                                  (demo_jobs ! 3)\<lparr>j_error := SText ''boom''\<rparr>]\<rparr>)
   \<and> map job_fixed [demo_jobs ! 0, demo_jobs ! 1, demo_jobs ! 2,
                     (demo_jobs ! 3)\<lparr>j_error := SText ''boom''\<rparr>] = map job_fixed (tbl_jobs demo_db)"
proof -
  let ?pups = "[(''id'', PStr ''paper-9''), (''status'', PStr ''indexed''), (''added_at'', PStr ''never'')]"
  let ?jups = "[(''priority'', PInt 99), (''error'', PStr ''boom'')]"
  have a: "update_paper (\<lambda>d. ''{}'') demo_db ''paper-1'' ?pups
             = Inr (demo_db\<lparr>tbl_papers := [demo_paper\<lparr>p_status := SText ''indexed''\<rparr>]\<rparr>)"
    by (simp add: update_paper_def paper_allowed_fields_def demo_db_def demo_paper_def)
  have b: "update_job demo_db ''job-4'' ?jups
     = Inr (demo_db\<lparr>tbl_jobs := [demo_jobs ! 0, demo_jobs ! 1, demo_jobs ! 2,
                                  (demo_jobs ! 3)\<lparr>j_error := SText ''boom''\<rparr>]\<rparr>)"
    by (simp add: update_job_def job_allowed_fields_def demo_db_def demo_jobs_def demo_job_def)
  note t = updates_change_allowed_fields_only[of "\<lambda>d. ''{}''" demo_db "''paper-1''" ?pups
        "''job-4''" ?jups]
  from t a have p: "map paper_fixed (tbl_papers (demo_db\<lparr>tbl_papers := [demo_paper\<lparr>p_status := SText ''indexed''\<rparr>]\<rparr>))
       = map paper_fixed (tbl_papers demo_db)"
    by blast
  from t b have j: "map job_fixed (tbl_jobs (demo_db\<lparr>tbl_jobs := [demo_jobs ! 0, demo_jobs ! 1, demo_jobs ! 2,
                                  (demo_jobs ! 3)\<lparr>j_error := SText ''boom''\<rparr>]\<rparr>))
       = map job_fixed (tbl_jobs demo_db)"
    by blast
  from p have p': "map paper_fixed [demo_paper\<lparr>p_status := SText ''indexed''\<rparr>] = map paper_fixed (tbl_papers demo_db)"
    by simp
  from j have j': "map job_fixed [demo_jobs ! 0, demo_jobs ! 1, demo_jobs ! 2,
                     (demo_jobs ! 3)\<lparr>j_error := SText ''boom''\<rparr>] = map job_fixed (tbl_jobs demo_db)"
    by simp
  show ?thesis
    by (intro conjI a b p' j')
qed

section \<open>Vector round trip\<close>

lemma float32_roundtrip: "float32_frombytes (ucast w) (ucast (drop_bit 8 w)) (ucast (drop_bit 16 w)) (ucast (drop_bit 24 w)) = (w :: 32 word)"
  unfolding float32_frombytes_def
proof (rule bit_word_eqI)
  fix n :: nat
  assume "n < LENGTH(32)"
  then have n: "n < 32" by simp
  consider "n < 8" | "8 \<le> n" "n < 16" | "16 \<le> n" "n < 24" | "24 \<le> n"
    by linarith
  then show "bit (ucast (ucast w :: byte) OR push_bit 8 (ucast (ucast (drop_bit 8 w) :: byte)) OR
               push_bit 16 (ucast (ucast (drop_bit 16 w) :: byte)) OR
               push_bit 24 (ucast (ucast (drop_bit 24 w) :: byte)) :: 32 word) n = bit w n"
    using n by cases (auto simp: bit_simps)
qed

lemma frombuffer_tobytes: "frombuffer (vector_to_bytes v) = v"
  by (induction v) (simp_all add: vector_to_bytes_def float32_tobytes_def float32_roundtrip)

lemma length_vector_to_bytes: "length (vector_to_bytes v) = 4 * length v"
  by (induction v) (simp_all add: vector_to_bytes_def float32_tobytes_def)

lemma within_tolerance_refl: "0 \<le> tol \<Longrightarrow> within_tolerance tol v v"
  by (auto simp: within_tolerance_def list_all2_same split: option.splits)

text \<open>
  C8. Encoding a vector with \<^verbatim>\<open>vector_to_bytes\<close> and decoding the bytes with
  \<^verbatim>\<open>bytes_to_vector\<close> gives back a vector of the same components, bit for bit, hence
  within the tolerance of one millionth on every component.
\<close>

theorem vector_roundtrip:
  "\<exists>v'. bytes_to_vector (vector_to_bytes v) = Inr v' \<and> v' = v
        \<and> within_tolerance (1 / 10 ^ 6) v v'"
  by (simp add: bytes_to_vector_def frombuffer_tobytes length_vector_to_bytes within_tolerance_refl)

section \<open>Normalised scores\<close>

lemma scores_of_map: "scores_of rs = Inr xs \<Longrightarrow> xs = map the_score rs"
  by (induction rs arbitrary: xs) (auto simp: the_score_def split: sum.splits)

lemma fold_min_Min: "xs \<noteq> [] \<Longrightarrow> fold min (tl xs) (hd xs) = Min (set xs)"
  by (cases xs) (simp_all add: Min.set_eq_fold[symmetric])

lemma fold_max_Max: "xs \<noteq> [] \<Longrightarrow> fold max (tl xs) (hd xs) = Max (set xs)"
  by (cases xs) (simp_all add: Max.set_eq_fold[symmetric])

lemma all_equal_iff:
  fixes xs :: "real list"
  assumes "xs \<noteq> []"
  shows "(\<forall>x \<in> set xs. x = hd xs) \<longleftrightarrow> Max (set xs) - Min (set xs) = 0"
proof
  assume "\<forall>x \<in> set xs. x = hd xs"
  then have "set xs = {hd xs}" using assms by (cases xs) auto
  then show "Max (set xs) - Min (set xs) = 0" by simp
next
  assume eq: "Max (set xs) - Min (set xs) = 0"
  show "\<forall>x \<in> set xs. x = hd xs"
  proof
    fix x assume "x \<in> set xs"
    then have "Min (set xs) \<le> x" "x \<le> Max (set xs)" by simp_all
    moreover have "Min (set xs) \<le> hd xs" "hd xs \<le> Max (set xs)" using assms by simp_all
    ultimately show "x = hd xs" using eq by linarith
  qed
qed

lemma dict_get_set: "dict_get (dict_set r k v) k = Inr v"
  by (simp add: dict_get_def dict_set_def update_conv')

lemma normalize_scores_eq:
  assumes "results \<noteq> []" and "scores_of results = Inr scores"
  shows "normalize_scores results =
     Inr (map (\<lambda>r. dict_set r ''normalized_score''
            (PFloat (if Max (set scores) - Min (set scores) = 0 then 1 / 2
                     else (the_score r - Min (set scores)) / (Max (set scores) - Min (set scores)))))
          results)"
proof -
  have ne: "scores \<noteq> []" using assms scores_of_map by fastforce
  show ?thesis
    using assms ne by (simp add: normalize_scores_def Let_def fold_min_Min fold_max_Max)
qed

text \<open>
  C7. On a non-empty list whose elements all carry a numeric score,
  \<^verbatim>\<open>normalize_scores\<close> sets \<^verbatim>\<open>normalized_score\<close> of every element: to 0.5 when all
  scores are equal, else to \<open>(score - min) / (max - min)\<close>, which lies in \<open>[0, 1]\<close> and is
  1 for the maximum and 0 for the minimum.
\<close>

theorem normalize_scores_minmax:
  assumes "results \<noteq> []" and "scores_of results = Inr scores"
  shows "\<exists>out. normalize_scores results = Inr out \<and> length out = length results \<and>
     (\<forall>i < length results. \<exists>n.
         out ! i = dict_set (results ! i) ''normalized_score'' (PFloat n)
       \<and> dict_get (out ! i) ''normalized_score'' = Inr (PFloat n)
       \<and> (if \<forall>x \<in> set scores. x = hd scores then n = 1 / 2
          else n = (scores ! i - Min (set scores)) / (Max (set scores) - Min (set scores))
             \<and> 0 \<le> n \<and> n \<le> 1
             \<and> (scores ! i = Max (set scores) \<longrightarrow> n = 1)
             \<and> (scores ! i = Min (set scores) \<longrightarrow> n = 0)))"
proof -
  let ?mn = "Min (set scores)" and ?mx = "Max (set scores)"
  let ?n = "\<lambda>r. if ?mx - ?mn = 0 then 1 / 2 else (the_score r - ?mn) / (?mx - ?mn)"
  let ?out = "map (\<lambda>r. dict_set r ''normalized_score'' (PFloat (?n r))) results"
  have sc: "scores = map the_score results" using assms(2) by (rule scores_of_map)
  then have ne: "scores \<noteq> []" using assms(1) by simp
  have eq: "normalize_scores results = Inr ?out"
    using assms by (rule normalize_scores_eq)
  have "\<exists>n. ?out ! i = dict_set (results ! i) ''normalized_score'' (PFloat n)
       \<and> dict_get (?out ! i) ''normalized_score'' = Inr (PFloat n)
       \<and> (if \<forall>x \<in> set scores. x = hd scores then n = 1 / 2
          else n = (scores ! i - ?mn) / (?mx - ?mn) \<and> 0 \<le> n \<and> n \<le> 1
             \<and> (scores ! i = ?mx \<longrightarrow> n = 1) \<and> (scores ! i = ?mn \<longrightarrow> n = 0))"
    if i: "i < length results" for i
  proof -
    have si: "scores ! i = the_score (results ! i)" using i sc by simp
    have mem: "scores ! i \<in> set scores" using i sc by simp
    have lo: "?mn \<le> scores ! i" and hi: "scores ! i \<le> ?mx" using mem by simp_all
    show ?thesis
    proof (cases "\<forall>x \<in> set scores. x = hd scores")
      case True
      then have "?mx - ?mn = 0" using all_equal_iff[OF ne] by simp
      then show ?thesis using i True
        by (intro exI[of _ "1 / 2"]) (simp add: dict_get_set)
    next
      case False
      then have r: "?mx - ?mn \<noteq> 0" using all_equal_iff[OF ne] by simp
      then have pos: "0 < ?mx - ?mn" using lo hi by linarith
      have "0 \<le> (scores ! i - ?mn) / (?mx - ?mn)" using lo pos by simp
      moreover have "(scores ! i - ?mn) / (?mx - ?mn) \<le> 1" using hi pos by simp
      ultimately show ?thesis using i False r si
        by (intro exI[of _ "(scores ! i - ?mn) / (?mx - ?mn)"]) (auto simp: dict_get_set)
    qed
  qed
  then show ?thesis using eq by (intro exI[of _ ?out]) simp
qed

lemma demo_results_normalized:
  "normalize_scores demo_results =
        Inr [[(''id'', PStr ''1''), (''score'', PFloat (9 / 10)), (''normalized_score'', PFloat 1)],
             [(''id'', PStr ''2''), (''score'', PFloat (5 / 10)), (''normalized_score'', PFloat (1 / 2))],
             [(''id'', PStr ''3''), (''score'', PFloat (1 / 10)), (''normalized_score'', PFloat 0)]]"
  by (simp add: normalize_scores_def demo_results_def score_of_def dict_get_def the_score_def
      dict_set_def Let_def)

theorem normalize_scores_minmax_witness:
  "demo_results \<noteq> [] \<and> scores_of demo_results = Inr demo_scores
   \<and> (\<exists>out. normalize_scores demo_results = Inr out \<and> length out = length demo_results \<and>
     (\<forall>i < length demo_results. \<exists>n.
         out ! i = dict_set (demo_results ! i) ''normalized_score'' (PFloat n)
       \<and> dict_get (out ! i) ''normalized_score'' = Inr (PFloat n)
       \<and> (if \<forall>x \<in> set demo_scores. x = hd demo_scores then n = 1 / 2
          else n = (demo_scores ! i - Min (set demo_scores))
                    / (Max (set demo_scores) - Min (set demo_scores))
             \<and> 0 \<le> n \<and> n \<le> 1
             \<and> (demo_scores ! i = Max (set demo_scores) \<longrightarrow> n = 1)
             \<and> (demo_scores ! i = Min (set demo_scores) \<longrightarrow> n = 0))))"
proof -
  have a: "demo_results \<noteq> []" by (simp add: demo_results_def)
  have b: "scores_of demo_results = Inr demo_scores"
    by (simp add: demo_results_def demo_scores_def score_of_def dict_get_def)
  show ?thesis
    by (intro conjI a b normalize_scores_minmax[OF a b])
qed

section \<open>Search\<close>










lemma bytes_to_vector_tobytes: "bytes_to_vector (vector_to_bytes v) = Inr v"
  by (simp add: bytes_to_vector_def frombuffer_tobytes length_vector_to_bytes)

lemma demo_scored:
  "score_chunks demo_embedder [0x3F800000, 0] demo_candidates =
     Inr [demo_hit ''chunk-a'' 0, demo_hit ''chunk-b'' 1, demo_hit ''chunk-c'' 1]"
  by (simp add: demo_candidates_def demo_candidate_def demo_hit_def score_chunk_def dict_get_def
      dict_set_def dict_del_def bytes_to_vector_tobytes cosine_similarity_def np_dot_def
      demo_embedder_def)

lemma demo_query_vec: "embed_text demo_embedder query = Inr [0x3F800000, 0]"
  by (simp add: embed_text_def demo_embedder_def)

lemma demo_ranked:
  "sort_by_score_reverse [demo_hit ''chunk-a'' 0, demo_hit ''chunk-b'' 1, demo_hit ''chunk-c'' 1] =
     Inr [demo_hit ''chunk-b'' 1, demo_hit ''chunk-c'' 1, demo_hit ''chunk-a'' 0]"
  by (simp add: sort_by_score_reverse_def demo_hit_def score_of_def dict_get_def the_score_def)

lemma demo_search:
  "search demo_embedder ''feline pet'' demo_candidates top_k =
     Inr (slice_to top_k [demo_hit ''chunk-b'' 1, demo_hit ''chunk-c'' 1, demo_hit ''chunk-a'' 0])"
  by (simp add: search_def demo_query_vec demo_scored demo_ranked)


text \<open>
  A negative \<open>top_k\<close> is no number of results: the slice then counts from the end, and
  \<open>- 1\<close> drops the last of the three ranked candidates.
\<close>

lemma search_negative_top_k_slice:
  "search demo_embedder ''feline pet'' demo_candidates (- 1) =
       Inr [demo_hit ''chunk-b'' 1, demo_hit ''chunk-c'' 1]"
  by (simp add: demo_search slice_to_def)

section \<open>Dimension mismatch\<close>

lemma cosine_mismatch:
  "length q \<noteq> length d \<Longrightarrow> \<exists>m. cosine_similarity svc q d = Inl (ValueError m)"
  by (simp add: cosine_similarity_def np_dot_def)

lemma score_chunks_Inl:
  assumes "c \<in> set cs" and "score_chunk svc qv c = Inl e"
  shows "\<exists>e'. score_chunks svc qv cs = Inl e'"
  using assms by (induction cs) (auto split: sum.splits)

lemma score_chunks_ValueError:
  assumes "c \<in> set cs" and "score_chunk svc qv c = Inl e"
    and "\<forall>c \<in> set cs. \<forall>e. score_chunk svc qv c = Inl e \<longrightarrow> (\<exists>m. e = ValueError m)"
  shows "\<exists>m. score_chunks svc qv cs = Inl (ValueError m)"
  using assms by (induction cs) (auto split: sum.splits)

lemma score_chunk_mismatch:
  assumes "dict_get c ''vector'' = Inr (PBytes data)" and "bytes_to_vector data = Inr dv"
    and "length dv \<noteq> length qv"
  shows "\<exists>m. score_chunk svc qv c = Inl (ValueError m)"
  using assms cosine_mismatch[of qv dv svc] by (auto simp: score_chunk_def)

lemma score_chunk_wellformed_error:
  assumes "dict_get c ''vector'' = Inr (PBytes data)" and "bytes_to_vector data = Inr dv"
    and "score_chunk svc qv c = Inl e"
  shows "\<exists>m. e = ValueError m"
  using assms
  by (auto simp: score_chunk_def cosine_similarity_def np_dot_def dict_del_def dict_set_def
      dict_get_def update_conv' split: if_splits option.splits)

text \<open>
  C9. The similarity of two vectors of different dimensions is a \<^verbatim>\<open>ValueError\<close>, not a
  score. A search over candidates one of which has a vector of another dimension
  than the query returns no results but raises; when every candidate holds a
  decodable vector the error raised is that \<^verbatim>\<open>ValueError\<close>.
\<close>

theorem dimension_mismatch_raises:
  "(length query_vec \<noteq> length doc_vec \<longrightarrow>
      (\<exists>m. cosine_similarity svc query_vec doc_vec = Inl (ValueError m)))
   \<and> (embed_text svc query = Inr query_vec
      \<and> (\<exists>c \<in> set cands. \<exists>data dv. dict_get c ''vector'' = Inr (PBytes data)
             \<and> bytes_to_vector data = Inr dv \<and> length dv \<noteq> length query_vec)
      \<longrightarrow> (\<exists>e. search svc query cands top_k = Inl e))
   \<and> (embed_text svc query = Inr query_vec
      \<and> (\<forall>c \<in> set cands. \<exists>data dv. dict_get c ''vector'' = Inr (PBytes data)
             \<and> bytes_to_vector data = Inr dv)
      \<and> (\<exists>c \<in> set cands. \<exists>data dv. dict_get c ''vector'' = Inr (PBytes data)
             \<and> bytes_to_vector data = Inr dv \<and> length dv \<noteq> length query_vec)
      \<longrightarrow> (\<exists>m. search svc query cands top_k = Inl (ValueError m)))"
proof (intro conjI impI)
  assume "length query_vec \<noteq> length doc_vec"
  then show "\<exists>m. cosine_similarity svc query_vec doc_vec = Inl (ValueError m)"
    by (rule cosine_mismatch)
next
  assume h: "embed_text svc query = Inr query_vec
      \<and> (\<exists>c \<in> set cands. \<exists>data dv. dict_get c ''vector'' = Inr (PBytes data)
             \<and> bytes_to_vector data = Inr dv \<and> length dv \<noteq> length query_vec)"
  then obtain c where "c \<in> set cands" "\<exists>m. score_chunk svc query_vec c = Inl (ValueError m)"
    using score_chunk_mismatch by blast
  then have "\<exists>e'. score_chunks svc query_vec cands = Inl e'"
    using score_chunks_Inl by blast
  then show "\<exists>e. search svc query cands top_k = Inl e"
    using h by (auto simp: search_def)
next
  assume h: "embed_text svc query = Inr query_vec
      \<and> (\<forall>c \<in> set cands. \<exists>data dv. dict_get c ''vector'' = Inr (PBytes data)
             \<and> bytes_to_vector data = Inr dv)
      \<and> (\<exists>c \<in> set cands. \<exists>data dv. dict_get c ''vector'' = Inr (PBytes data)
             \<and> bytes_to_vector data = Inr dv \<and> length dv \<noteq> length query_vec)"
  then obtain c where c: "c \<in> set cands" "\<exists>m. score_chunk svc query_vec c = Inl (ValueError m)"
    using score_chunk_mismatch by blast
  have "\<forall>c \<in> set cands. \<forall>e. score_chunk svc query_vec c = Inl e \<longrightarrow> (\<exists>m. e = ValueError m)"
    using h score_chunk_wellformed_error by blast
  with c have "\<exists>m. score_chunks svc query_vec cands = Inl (ValueError m)"
    using score_chunks_ValueError by blast
  then show "\<exists>m. search svc query cands top_k = Inl (ValueError m)"
    using h by (auto simp: search_def)
qed

lemma demo_candidate_vector:
  "dict_get (demo_candidate cid v) ''vector'' = Inr (PBytes (vector_to_bytes v))"
  by (simp add: demo_candidate_def dict_get_def)

theorem dimension_mismatch_raises_witness:
  "length [0x3F800000, 0 :: float32] \<noteq> length [0x3F800000, 0, 0 :: float32]
   \<and> cosine_similarity demo_embedder [0x3F800000, 0] [0x3F800000, 0, 0] =
       Inl (ValueError ''shapes (2,) and (3,) not aligned: 2 (dim 0) != 3 (dim 0)'')
   \<and> embed_text demo_embedder ''feline pet'' = Inr [0x3F800000, 0]
   \<and> list_all (\<lambda>c. \<exists>data dv. dict_get c ''vector'' = Inr (PBytes data)
                     \<and> bytes_to_vector data = Inr dv)
        (demo_candidates @ [demo_bad_candidate])
   \<and> (\<exists>c \<in> set (demo_candidates @ [demo_bad_candidate]).
          \<exists>data dv. dict_get c ''vector'' = Inr (PBytes data) \<and> bytes_to_vector data = Inr dv
            \<and> length dv \<noteq> length [0x3F800000, 0 :: float32])
   \<and> (\<exists>m. search demo_embedder ''feline pet'' (demo_candidates @ [demo_bad_candidate]) 2 =
            Inl (ValueError m))"
proof -
  have a: "length [0x3F800000, 0 :: float32] \<noteq> length [0x3F800000, 0, 0 :: float32]" by simp
  have b: "cosine_similarity demo_embedder [0x3F800000, 0] [0x3F800000, 0, 0] =
       Inl (ValueError ''shapes (2,) and (3,) not aligned: 2 (dim 0) != 3 (dim 0)'')"
    by (simp add: cosine_similarity_def np_dot_def str_nat.simps digit_char_def)
  have c: "embed_text demo_embedder ''feline pet'' = Inr [0x3F800000, 0]"
    by (rule demo_query_vec)
  have d: "\<forall>c \<in> set (demo_candidates @ [demo_bad_candidate]).
          \<exists>data dv. dict_get c ''vector'' = Inr (PBytes data) \<and> bytes_to_vector data = Inr dv"
    by (simp add: demo_candidates_def demo_bad_candidate_def demo_candidate_vector
        bytes_to_vector_tobytes)
  have e: "\<exists>c \<in> set (demo_candidates @ [demo_bad_candidate]).
          \<exists>data dv. dict_get c ''vector'' = Inr (PBytes data) \<and> bytes_to_vector data = Inr dv
            \<and> length dv \<noteq> length [0x3F800000, 0 :: float32]"
    by (rule bexI[of _ demo_bad_candidate])
       (simp_all add: demo_bad_candidate_def demo_candidate_vector bytes_to_vector_tobytes)
  from dimension_mismatch_raises[of "[0x3F800000, 0]" "[0x3F800000, 0, 0]" demo_embedder
      "''feline pet''" "demo_candidates @ [demo_bad_candidate]" 2] c d e
  have f: "\<exists>m. search demo_embedder ''feline pet'' (demo_candidates @ [demo_bad_candidate]) 2 =
            Inl (ValueError m)"
    by blast
  have d': "list_all (\<lambda>c. \<exists>data dv. dict_get c ''vector'' = Inr (PBytes data)
                     \<and> bytes_to_vector data = Inr dv)
        (demo_candidates @ [demo_bad_candidate])"
    using d unfolding list_all_iff .
  show ?thesis by (intro conjI a b c d' e f)
qed

section \<open>A second batch run\<close>

text \<open>
  C3. While a batch run is active (\<^verbatim>\<open>_running\<close> is set), \<^verbatim>\<open>run_batch\<close> returns the busy
  result and the state it returns is the state it was called in: no job row, no other
  table and no field of the processor has changed.
\<close>

theorem run_batch_busy:
  "bp_running st \<Longrightarrow> run_batch env st = (Inr (Busy ''Batch already running''), st)"
  by (simp add: run_batch_def)

theorem run_batch_busy_witness:
  "bp_running (demo_processor\<lparr>bp_running := True\<rparr>)
   \<and> run_batch demo_env (demo_processor\<lparr>bp_running := True\<rparr>) =
       (Inr (Busy ''Batch already running''), demo_processor\<lparr>bp_running := True\<rparr>)"
proof -
  have a: "bp_running (demo_processor\<lparr>bp_running := True\<rparr>)" by simp
  from run_batch_busy[OF a, of demo_env] a show ?thesis by simp
qed

section \<open>Embedding needs chunks\<close>

lemma store_embeddings_tables:
  "tbl_papers (store_embeddings ps db) = tbl_papers db"
  "tbl_chunks (store_embeddings ps db) = tbl_chunks db"
  unfolding store_embeddings_def
  by (induction ps arbitrary: db) (auto simp: add_embedding_def)

lemma store_embeddings_append:
  "store_embeddings (ps @ qs) db = store_embeddings qs (store_embeddings ps db)"
  by (simp add: store_embeddings_def)

lemma embed_batches_papers:
  "tbl_papers (bp_db (snd (embed_batches env st cs i))) = tbl_papers (bp_db st)"
proof (induction env st cs i rule: embed_batches.induct)
  case (1 env st cs i)
  show ?case
    apply (subst embed_batches.simps)
    using 1 by (auto simp: Let_def store_embeddings_tables split: sum.splits option.splits)
qed

lemma embed_batches_writes:
  assumes "equal_count (embedding_service env)"
    and "embed_batches env st cs i = (None, st')"
  shows "\<exists>vecs. length vecs = length cs - i
           \<and> st' = st\<lparr>bp_db := store_embeddings (zip (drop i cs) vecs) (bp_db st)\<rparr>"
  using assms
proof (induction env st cs i arbitrary: st' rule: embed_batches.induct)
  case (1 env st cs i)
  note contract = "1.prems"(1) and run = "1.prems"(2)
  show ?case
  proof (cases "i < length cs")
    case False
    with run have "st' = st"
      by (subst (asm) embed_batches.simps) simp
    then show ?thesis using False
      by (intro exI[of _ "[]"]) (simp add: store_embeddings_def)
  next
    case True
    let ?batch = "take batch_size (drop i cs)"
    from run True obtain embs where
      embs: "embed_texts (embedding_service env) (map c_text ?batch) = Inr embs"
      by (subst (asm) embed_batches.simps) (auto simp: Let_def split: sum.splits)
    let ?st1 = "st\<lparr>bp_db := store_embeddings (zip ?batch embs) (bp_db st)\<rparr>"
    let ?progress = "min 0.9 (0.1 + 0.8 * real (i + length (map c_text ?batch)) / real (length cs))"
    let ?message = "''Embedded '' @ str_nat (min (i + batch_size) (length cs)) @ ''/''
                              @ str_nat (length cs)"
    from run True embs have
      quiet: "notify_progress ?st1 [] ''running'' ?progress ?message = None"
      and rest: "embed_batches env ?st1 cs (i + batch_size) = (None, st')"
      by (subst (asm) embed_batches.simps; simp add: Let_def split: option.splits)+
    from "1.IH"[OF True refl refl refl embs refl refl quiet contract rest]
    obtain vecs where vecs: "length vecs = length cs - (i + batch_size)"
      "st' = ?st1\<lparr>bp_db := store_embeddings (zip (drop (i + batch_size) cs) vecs) (bp_db ?st1)\<rparr>"
      by blast
    have "length embs = length (map c_text ?batch)"
      using contract embs unfolding equal_count_def embed_texts_def by blast
    then have len: "length embs = length ?batch" by simp
    have split: "drop i cs = ?batch @ drop (i + batch_size) cs"
      by (metis add.commute append_take_drop_id drop_drop)
    have "zip (drop i cs) (embs @ vecs) = zip ?batch embs @ zip (drop (i + batch_size) cs) vecs"
      by (subst split) (simp add: len)
    then have "st' = st\<lparr>bp_db := store_embeddings (zip (drop i cs) (embs @ vecs)) (bp_db st)\<rparr>"
      using vecs(2) by (simp add: store_embeddings_append)
    moreover have "length (embs @ vecs) = length cs - i"
      using len vecs(1) True by (simp add: batch_size_def)
    ultimately show ?thesis by blast
  qed
qed

lemma update_paper_embeddings_ready:
  "update_paper dumps db pid [(''embeddings_ready'', PInt 1)] =
     Inr (db\<lparr>tbl_papers := paper_embeddings_ready pid (tbl_papers db)\<rparr>)"
  by (simp add: update_paper_def paper_allowed_fields_def paper_embeddings_ready_def)

lemma compute_embeddings_no_chunks:
  assumes "get_chunks (bp_db st) (p_id paper) = []"
  shows "compute_embeddings env st paper =
           (Some (ValueError (''No chunks found for paper '' @ p_id paper
                                @ ''. Run text extraction first.'')), st)"
  using assms by (simp add: compute_embeddings_def)

lemma compute_embeddings_flag:
  assumes "equal_count (embedding_service env)"
    and "compute_embeddings env st paper = (r, st')"
  shows "tbl_papers (bp_db st') = tbl_papers (bp_db st)
       \<or> (get_chunks (bp_db st) (p_id paper) \<noteq> []
          \<and> (\<exists>vecs. length vecs = length (get_chunks (bp_db st) (p_id paper))
                \<and> tbl_embeddings (bp_db st') =
                    tbl_embeddings (store_embeddings (zip (get_chunks (bp_db st) (p_id paper)) vecs)
                                      (bp_db st)))
          \<and> tbl_papers (bp_db st') = paper_embeddings_ready (p_id paper) (tbl_papers (bp_db st)))"
proof (cases "get_chunks (bp_db st) (p_id paper) = []")
  case True
  then show ?thesis using assms(2) by (simp add: compute_embeddings_no_chunks)
next
  case False
  let ?cs = "get_chunks (bp_db st) (p_id paper)"
  show ?thesis
  proof (cases "notify_progress st [] ''running'' 0.1
                   (''Computing embeddings for '' @ str_nat (length ?cs) @ '' chunks...'')")
    case (Some e)
    then show ?thesis using assms(2) False by (simp add: compute_embeddings_def Let_def)
  next
    case None
    obtain r1 st1 where eb: "embed_batches env st ?cs 0 = (r1, st1)" by fastforce
    show ?thesis
    proof (cases r1)
      case (Some e)
      then have "st' = st1" using assms(2) False None eb
        by (simp add: compute_embeddings_def Let_def)
      then show ?thesis using embed_batches_papers[of env st ?cs 0] eb by simp
    next
      case none: None
      with eb embed_batches_writes[OF assms(1), of st ?cs 0 st1]
      obtain vecs where vecs: "length vecs = length ?cs"
        "st1 = st\<lparr>bp_db := store_embeddings (zip ?cs vecs) (bp_db st)\<rparr>"
        by auto
      have "bp_db st' = (bp_db st1)\<lparr>tbl_papers := paper_embeddings_ready (p_id paper) (tbl_papers (bp_db st1))\<rparr>"
        using assms(2) False None eb none
        by (auto simp: compute_embeddings_def Let_def update_paper_embeddings_ready)
      then show ?thesis using vecs False
        by (auto simp: store_embeddings_tables)
    qed
  qed
qed

lemma get_paper_id: "get_paper db pid = Some p \<Longrightarrow> p_id p = pid"
  by (auto simp: get_paper_def find_Some_iff)

lemma get_chunks_jobs_update [simp]: "get_chunks (db\<lparr>tbl_jobs := js\<rparr>) pid = get_chunks db pid"
  by (simp add: get_chunks_def)

lemma get_paper_jobs_update [simp]: "get_paper (db\<lparr>tbl_jobs := js\<rparr>) pid = get_paper db pid"
  by (simp add: get_paper_def)

lemma process_embed_job_no_chunks:
  assumes "j_type job = ''EMBED''" and "get_chunks (bp_db st) (j_paper_id job) = []"
    and "process_job env st job = (r, st')"
  shows "r \<noteq> None" and "tbl_papers (bp_db st') = tbl_papers (bp_db st)"
    and "bp_progress_callback st = None \<and> get_paper (bp_db st) (j_paper_id job) = Some paper
           \<and> path_exists env (p_local_pdf_path paper)
         \<Longrightarrow> r = Some (ValueError (''No chunks found for paper '' @ j_paper_id job
                                      @ ''. Run text extraction first.''))"
  using assms
  by (auto simp: process_job_def Let_def utcnow_isoformat_def mark_running_rows run_handler_def
        compute_embeddings_no_chunks notify_progress_def
      dest!: get_paper_id split: option.splits if_splits)

text \<open>
  C5. An embedding pass over a paper without chunks raises the "no chunks" error and
  changes nothing. An EMBED job for such a paper therefore never completes: it raises
  (the "no chunks" error when the paper and its PDF exist and no observer fails) and
  no paper row, hence no \<^verbatim>\<open>embeddings_ready\<close> flag, is changed. When the model returns
  one vector per text, a pass that changes a paper row at all has written an embedding
  for every chunk of the paper, in this pass, before setting the flag of that paper.
\<close>

theorem embed_needs_chunks:
  "(get_chunks (bp_db st) (p_id paper) = [] \<longrightarrow>
      compute_embeddings env st paper = (Some (no_chunks_error (p_id paper)), st))
   \<and> (j_type job = ''EMBED'' \<and> get_chunks (bp_db st) (j_paper_id job) = []
        \<and> process_job env st job = (r, st') \<longrightarrow>
      r \<noteq> None \<and> tbl_papers (bp_db st') = tbl_papers (bp_db st)
      \<and> (bp_progress_callback st = None \<and> get_paper (bp_db st) (j_paper_id job) = Some paper2
           \<and> path_exists env (p_local_pdf_path paper2)
         \<longrightarrow> r = Some (no_chunks_error (j_paper_id job))))
   \<and> (equal_count (embedding_service env) \<and> compute_embeddings env st paper = (r3, st3) \<longrightarrow>
        tbl_papers (bp_db st3) = tbl_papers (bp_db st)
        \<or> (get_chunks (bp_db st) (p_id paper) \<noteq> []
           \<and> (\<exists>vecs. length vecs = length (get_chunks (bp_db st) (p_id paper))
                \<and> tbl_embeddings (bp_db st3) =
                    tbl_embeddings (store_embeddings (zip (get_chunks (bp_db st) (p_id paper)) vecs)
                                      (bp_db st)))
           \<and> tbl_papers (bp_db st3) = paper_embeddings_ready (p_id paper) (tbl_papers (bp_db st))))"
proof (intro conjI impI)
  assume "get_chunks (bp_db st) (p_id paper) = []"
  then show "compute_embeddings env st paper = (Some (no_chunks_error (p_id paper)), st)"
    unfolding no_chunks_error_def by (rule compute_embeddings_no_chunks)
next
  assume h: "j_type job = ''EMBED'' \<and> get_chunks (bp_db st) (j_paper_id job) = []
        \<and> process_job env st job = (r, st')"
  then show "r \<noteq> None" and "tbl_papers (bp_db st') = tbl_papers (bp_db st)"
    using process_embed_job_no_chunks(1,2) by blast+
  assume "bp_progress_callback st = None \<and> get_paper (bp_db st) (j_paper_id job) = Some paper2
           \<and> path_exists env (p_local_pdf_path paper2)"
  with h show "r = Some (no_chunks_error (j_paper_id job))"
    unfolding no_chunks_error_def using process_embed_job_no_chunks(3) by blast
next
  assume "equal_count (embedding_service env) \<and> compute_embeddings env st paper = (r3, st3)"
  then show "tbl_papers (bp_db st3) = tbl_papers (bp_db st)
        \<or> (get_chunks (bp_db st) (p_id paper) \<noteq> []
           \<and> (\<exists>vecs. length vecs = length (get_chunks (bp_db st) (p_id paper))
                \<and> tbl_embeddings (bp_db st3) =
                    tbl_embeddings (store_embeddings (zip (get_chunks (bp_db st) (p_id paper)) vecs)
                                      (bp_db st)))
           \<and> tbl_papers (bp_db st3) = paper_embeddings_ready (p_id paper) (tbl_papers (bp_db st)))"
    using compute_embeddings_flag by blast
qed

lemma demo_no_chunks: "get_chunks (bp_db demo_processor) (p_id demo_paper) = []"
  by (simp add: demo_processor_def demo_db_def get_chunks_def)

lemma demo_get_chunks: "get_chunks demo_db_chunks ''paper-1'' = demo_chunk_rows"
  by (simp add: demo_db_chunks_def demo_db_def get_chunks_def demo_chunk_rows_def less_eq_prod_def)

lemma demo_equal_count: "equal_count (embedding_service demo_env)"
  by (simp add: equal_count_def demo_env_def demo_embedder_def)

lemma demo_pass:
  "compute_embeddings demo_env (demo_processor\<lparr>bp_db := demo_db_chunks\<rparr>) demo_paper =
     (None, demo_embedded)"
  apply (simp add: compute_embeddings_def Let_def demo_get_chunks notify_progress_def
      demo_processor_def demo_paper_def)
  apply (simp add: embed_batches.simps demo_chunk_rows_def batch_size_def Let_def
      embed_texts_def demo_env_def demo_embedder_def notify_progress_def store_embeddings_def
      add_embedding_def update_paper_embeddings_ready paper_embeddings_ready_def
      demo_embedded_def demo_processor_def demo_db_chunks_def demo_db_def demo_paper_def)
  done

lemma demo_embed_job:
  "process_job demo_env demo_processor (demo_jobs ! 0) =
     (Some (no_chunks_error ''paper-1''), demo_claimed)"
  apply (simp add: process_job_def Let_def utcnow_isoformat_def mark_running_rows
      notify_progress_def run_handler_def demo_jobs_def demo_job_def)
  apply (simp add: demo_processor_def demo_env_def demo_db_def get_paper_def demo_paper_def
      compute_embeddings_def get_chunks_def no_chunks_error_def demo_claimed_def
      str_nat.simps digit_char_def demo_jobs_def demo_job_def run_handler_def Let_def)
  done

theorem embed_needs_chunks_witness:
  "get_chunks (bp_db demo_processor) (p_id demo_paper) = []
   \<and> compute_embeddings demo_env demo_processor demo_paper =
       (Some (no_chunks_error (p_id demo_paper)), demo_processor)
   \<and> j_type (demo_jobs ! 0) = ''EMBED''
   \<and> get_chunks (bp_db demo_processor) (j_paper_id (demo_jobs ! 0)) = []
   \<and> process_job demo_env demo_processor (demo_jobs ! 0) =
       (Some (no_chunks_error ''paper-1''), demo_claimed)
   \<and> tbl_papers (bp_db demo_claimed) = tbl_papers (bp_db demo_processor)
   \<and> equal_count (embedding_service demo_env)
   \<and> compute_embeddings demo_env (demo_processor\<lparr>bp_db := demo_db_chunks\<rparr>) demo_paper =
       (None, demo_embedded)
   \<and> tbl_papers (bp_db demo_embedded) \<noteq> tbl_papers demo_db_chunks
   \<and> (\<exists>vecs. length vecs = length (get_chunks demo_db_chunks (p_id demo_paper))
          \<and> tbl_embeddings (bp_db demo_embedded) =
              tbl_embeddings (store_embeddings
                 (zip (get_chunks demo_db_chunks (p_id demo_paper)) vecs) demo_db_chunks))
   \<and> tbl_papers (bp_db demo_embedded) =
       paper_embeddings_ready (p_id demo_paper) (tbl_papers demo_db_chunks)"
proof -
  let ?st = "demo_processor\<lparr>bp_db := demo_db_chunks\<rparr>"
  have a: "get_chunks (bp_db demo_processor) (p_id demo_paper) = []"
    by (rule demo_no_chunks)
  have b: "j_type (demo_jobs ! 0) = ''EMBED''"
    by (simp add: demo_jobs_def demo_job_def)
  have c: "get_chunks (bp_db demo_processor) (j_paper_id (demo_jobs ! 0)) = []"
    using a by (simp add: demo_jobs_def demo_job_def demo_paper_def)
  have d: "process_job demo_env demo_processor (demo_jobs ! 0) =
       (Some (no_chunks_error ''paper-1''), demo_claimed)"
    by (rule demo_embed_job)
  have e: "equal_count (embedding_service demo_env)"
    by (rule demo_equal_count)
  have f: "compute_embeddings demo_env ?st demo_paper = (None, demo_embedded)"
    by (rule demo_pass)
  have g: "tbl_papers (bp_db demo_embedded) \<noteq> tbl_papers demo_db_chunks"
    by (simp add: demo_embedded_def demo_db_chunks_def demo_db_def demo_paper_def)
  note t1 = embed_needs_chunks[of demo_processor demo_paper demo_env "demo_jobs ! 0"
      "Some (no_chunks_error ''paper-1'')" demo_claimed demo_paper None demo_embedded]
  note t2 = embed_needs_chunks[of ?st demo_paper demo_env "demo_jobs ! 0"
      "Some (no_chunks_error ''paper-1'')" demo_claimed demo_paper None demo_embedded]
  from t1 a have h1: "compute_embeddings demo_env demo_processor demo_paper =
       (Some (no_chunks_error (p_id demo_paper)), demo_processor)"
    by blast
  from t1 b c d have h2: "tbl_papers (bp_db demo_claimed) = tbl_papers (bp_db demo_processor)"
    by blast
  from t2 e f g have h3: "(\<exists>vecs. length vecs = length (get_chunks demo_db_chunks (p_id demo_paper))
          \<and> tbl_embeddings (bp_db demo_embedded) =
              tbl_embeddings (store_embeddings
                 (zip (get_chunks demo_db_chunks (p_id demo_paper)) vecs) demo_db_chunks))
    \<and> tbl_papers (bp_db demo_embedded) =
       paper_embeddings_ready (p_id demo_paper) (tbl_papers demo_db_chunks)"
    by simp
  show ?thesis
    using a h1 b c d h2 e f g h3 by (intro conjI) blast+
qed

section \<open>A failing job does not stop the batch\<close>


















end
